theory Spec2Isabelle
  imports Complex_Main "HOL-Library.Multiset" "HOL-Library.Product_Lexorder"
begin

section \<open>Data model of \<^verbatim>\<open>scanner.py\<close>\<close>

text \<open>
  Python strings are sequences of Unicode code points, so a text is a list of code points
  (natural numbers); \<open>asc\<close> turns an ASCII literal into such a text.  Coordinates and
  scores are Python floats that the OCR engine supplies; they are modelled by exact real
  numbers, so their rounding, infinities and NaN are outside the model.  The one float the
  program computes from a text, the price value, has its overflow to infinity modelled.
\<close>

type_synonym uchar = nat
type_synonym ustring = "nat list"

definition asc :: "string \<Rightarrow> ustring" where
  "asc s = map of_char s"

text \<open>A box is the list \<^verbatim>\<open>[x1, y1, x2, y2]\<close> of the source.\<close>

type_synonym box = "real \<times> real \<times> real \<times> real"

fun bx1 :: "box \<Rightarrow> real" where "bx1 (x1, y1, x2, y2) = x1"
fun by1 :: "box \<Rightarrow> real" where "by1 (x1, y1, x2, y2) = y1"
fun bx2 :: "box \<Rightarrow> real" where "bx2 (x1, y1, x2, y2) = x2"
fun by2 :: "box \<Rightarrow> real" where "by2 (x1, y1, x2, y2) = y2"

text \<open>
  A token is the dict \<^verbatim>\<open>{"text": t, "score": s, "box": [x1, y1, x2, y2]}\<close>.  Every
  use of the text in the modelled functions is \<^verbatim>\<open>t.get("text") or ""\<close> (or
  \<^verbatim>\<open>t["text"] or ""\<close>), so a missing text and the empty text are the same value.
\<close>

record token =
  tok_text :: ustring
  tok_score :: "real option"
  tok_box :: box

datatype py_error = ZeroDivisionError | ValueError

section \<open>Geometry helpers\<close>

text \<open>
  \<^verbatim>\<open>vertical_overlap_ratio\<close>, first with Python's division written as the operation
  that raises on a zero divisor, then as the total function the rest of the program calls.
\<close>

definition py_truediv :: "real \<Rightarrow> real \<Rightarrow> py_error + real" where
  "py_truediv a b = (if b = 0 then Inl ZeroDivisionError else Inr (a / b))"

definition vertical_overlap_ratio_exc :: "box \<Rightarrow> box \<Rightarrow> py_error + real" where
  "vertical_overlap_ratio_exc a b =
     (let inter = max 0 (min (by2 a) (by2 b) - max (by1 a) (by1 b));
          union = (by2 a - by1 a) + (by2 b - by1 b) - inter
      in if union > 0 then py_truediv inter union else Inr 0)"

definition vertical_overlap_ratio :: "box \<Rightarrow> box \<Rightarrow> real" where
  "vertical_overlap_ratio a b =
     (let inter = max 0 (min (by2 a) (by2 b) - max (by1 a) (by1 b));
          union = (by2 a - by1 a) + (by2 b - by1 b) - inter
      in if union > 0 then inter / union else 0)"

section \<open>Row grouping\<close>

text \<open>
  Python's \<^verbatim>\<open>min\<close> and \<^verbatim>\<open>max\<close> of a sequence raise on the empty sequence; the
  program applies them to the boxes of a row, or of a name-token list, which is never
  empty where they are called, so the models have no equation for the empty list.
\<close>

fun py_min :: "real list \<Rightarrow> real" where
  "py_min (x # xs) = fold min xs x"

fun py_max :: "real list \<Rightarrow> real" where
  "py_max (x # xs) = fold max xs x"

text \<open>The aggregate bounding box \<^verbatim>\<open>(x1, y1, x2, y2)\<close> of a list of tokens.\<close>

definition union_box :: "token list \<Rightarrow> box" where
  "union_box ts =
     (let row_boxes = map tok_box ts
      in (py_min (map bx1 row_boxes), py_min (map by1 row_boxes),
          py_max (map bx2 row_boxes), py_max (map by2 row_boxes)))"

text \<open>
  The inner loop of \<^verbatim>\<open>group_rows\<close>: the token joins the first row, in creation order,
  whose aggregate box it overlaps enough; otherwise it starts a new row at the end.
\<close>

fun place_token :: "real \<Rightarrow> token \<Rightarrow> token list list \<Rightarrow> token list list" where
  "place_token overlap_thresh tok [] = [[tok]]"
| "place_token overlap_thresh tok (row # rows) =
     (if vertical_overlap_ratio (tok_box tok) (union_box row) \<ge> overlap_thresh
      then (row @ [tok]) # rows
      else row # place_token overlap_thresh tok rows)"

text \<open>
  \<^verbatim>\<open>sorted\<close> and \<^verbatim>\<open>list.sort\<close> are stable, as \<open>sort_key\<close> is; the key of the
  first sort is the pair \<^verbatim>\<open>(box[1], box[0])\<close>, compared lexicographically.
\<close>

definition group_rows :: "real \<Rightarrow> token list \<Rightarrow> token list list" where
  "group_rows overlap_thresh tokens =
     (let tokens' = sort_key (\<lambda>a. (by1 (tok_box a), bx1 (tok_box a))) tokens;
          rows = fold (place_token overlap_thresh) tokens' []
      in map (sort_key (\<lambda>a. bx1 (tok_box a))) rows)"

text \<open>The default \<^verbatim>\<open>overlap_thresh=0.45\<close>.\<close>

definition group_rows_default :: "token list \<Rightarrow> token list list" where
  "group_rows_default tokens = group_rows (45 / 100) tokens"

section \<open>Unicode\<close>

text \<open>
  \<^verbatim>\<open>str.isspace\<close>, which decides what \<^verbatim>\<open>str.strip\<close> removes and what \<^verbatim>\<open>\s\<close>
  matches in a pattern over \<^verbatim>\<open>str\<close>: the 29 white-space code points.
\<close>

definition py_isspace :: "uchar \<Rightarrow> bool" where
  "py_isspace c \<longleftrightarrow>
     (9 \<le> c \<and> c \<le> 13) \<or> (28 \<le> c \<and> c \<le> 32) \<or> c = 133 \<or> c = 160 \<or> c = 5760
     \<or> (8192 \<le> c \<and> c \<le> 8202) \<or> c = 8232 \<or> c = 8233 \<or> c = 8239 \<or> c = 8287
     \<or> c = 12288"

text \<open>
  The remaining character properties come from Python's Unicode database.  On ASCII they
  are written out below; for the other code points they are the fields of a database
  \<open>U\<close> that every function takes as a parameter, so that a theorem without a hypothesis on
  \<open>U\<close> holds whatever the database says outside ASCII.
\<close>

record unicode_db =
  u_decimal :: "uchar \<Rightarrow> nat option"   \<comment> \<open>value of a decimal digit (category Nd)\<close>
  u_isdigit :: "uchar \<Rightarrow> bool"         \<comment> \<open>\<^verbatim>\<open>str.isdigit\<close>\<close>
  u_isalnum :: "uchar \<Rightarrow> bool"         \<comment> \<open>\<^verbatim>\<open>str.isalnum\<close>\<close>
  u_upper :: "uchar \<Rightarrow> ustring"        \<comment> \<open>\<^verbatim>\<open>str.upper\<close> of one character\<close>
  u_nfkd :: "uchar \<Rightarrow> ustring"         \<comment> \<open>compatibility decomposition of one character\<close>
  u_mark :: "uchar \<Rightarrow> bool"            \<comment> \<open>general category Mn, Mc or Me\<close>
  u_name :: "uchar \<Rightarrow> ustring option"   \<comment> \<open>\<^verbatim>\<open>unicodedata.name\<close>, \<open>None\<close> where it raises\<close>

definition ascii_digit :: "uchar \<Rightarrow> bool" where
  "ascii_digit c \<longleftrightarrow> 48 \<le> c \<and> c \<le> 57"

definition ascii_upper_letter :: "uchar \<Rightarrow> bool" where
  "ascii_upper_letter c \<longleftrightarrow> 65 \<le> c \<and> c \<le> 90"

definition ascii_lower_letter :: "uchar \<Rightarrow> bool" where
  "ascii_lower_letter c \<longleftrightarrow> 97 \<le> c \<and> c \<le> 122"

text \<open>The decimal value of a character that \<^verbatim>\<open>\d\<close> matches and \<^verbatim>\<open>float\<close> reads.\<close>

definition decimal_value :: "unicode_db \<Rightarrow> uchar \<Rightarrow> nat option" where
  "decimal_value U c =
     (if c < 128 then (if ascii_digit c then Some (c - 48) else None) else u_decimal U c)"

definition py_isdecimal :: "unicode_db \<Rightarrow> uchar \<Rightarrow> bool" where
  "py_isdecimal U c \<longleftrightarrow> decimal_value U c \<noteq> None"

definition py_isdigit :: "unicode_db \<Rightarrow> uchar \<Rightarrow> bool" where
  "py_isdigit U c \<longleftrightarrow> (if c < 128 then ascii_digit c else u_isdigit U c)"

text \<open>A word character of \<^verbatim>\<open>\b\<close>: alphanumeric or the underscore.\<close>

definition re_word :: "unicode_db \<Rightarrow> uchar \<Rightarrow> bool" where
  "re_word U c \<longleftrightarrow>
     (if c < 128 then ascii_digit c \<or> ascii_upper_letter c \<or> ascii_lower_letter c \<or> c = 95
      else u_isalnum U c)"

definition py_upper_char :: "unicode_db \<Rightarrow> uchar \<Rightarrow> ustring" where
  "py_upper_char U c =
     (if c < 128 then [if ascii_lower_letter c then c - 32 else c] else u_upper U c)"

definition py_upper :: "unicode_db \<Rightarrow> ustring \<Rightarrow> ustring" where
  "py_upper U s = concat (map (py_upper_char U) s)"

definition py_strip :: "ustring \<Rightarrow> ustring" where
  "py_strip s = rev (dropWhile py_isspace (rev (dropWhile py_isspace s)))"

text \<open>\<^verbatim>\<open>sub in s\<close> on strings.\<close>

fun py_prefix :: "ustring \<Rightarrow> ustring \<Rightarrow> bool" where
  "py_prefix [] s = True"
| "py_prefix (a # as) [] = False"
| "py_prefix (a # as) (c # cs) = (a = c \<and> py_prefix as cs)"

fun py_in :: "ustring \<Rightarrow> ustring \<Rightarrow> bool" where
  "py_in sub [] = (sub = [])"
| "py_in sub (c # cs) = (py_prefix sub (c # cs) \<or> py_in sub cs)"

section \<open>Regular expressions\<close>

text \<open>
  The patterns of the program, as values of a datatype, and the backtracking matcher of
  Python's \<^verbatim>\<open>re\<close> for the constructs they use.  The matcher returns every way a pattern
  can match at a position, in the order in which backtracking tries them (the first
  alternative before the second, a greedy repetition with more iterations before fewer),
  so the head of the list is the match \<^verbatim>\<open>re\<close> reports.
\<close>

datatype cset_item =
    CDigit                \<comment> \<open>\<^verbatim>\<open>\d\<close>\<close>
  | CSpace                \<comment> \<open>\<^verbatim>\<open>\s\<close>\<close>
  | COne uchar            \<comment> \<open>one character\<close>
  | CRange uchar uchar    \<comment> \<open>\<^verbatim>\<open>a-z\<close>\<close>

datatype regex =
    Eps
  | Chr uchar                        \<comment> \<open>a literal character\<close>
  | CSet "cset_item list"            \<comment> \<open>\<^verbatim>\<open>[...]\<close>, \<^verbatim>\<open>\d\<close>, \<^verbatim>\<open>\s\<close>\<close>
  | NSet "cset_item list"            \<comment> \<open>\<^verbatim>\<open>[^...]\<close>\<close>
  | Seq regex regex
  | Alt regex regex
  | Rep nat "nat option" regex       \<comment> \<open>greedy \<^verbatim>\<open>r{m,n}\<close>; no upper bound is \<open>None\<close>\<close>
  | Grp nat regex                    \<comment> \<open>capturing group number \<open>n\<close>\<close>
  | WordB                            \<comment> \<open>\<^verbatim>\<open>\b\<close>\<close>
  | NotAfterDigit                    \<comment> \<open>\<^verbatim>\<open>(?<!\d)\<close>\<close>
  | Bol                              \<comment> \<open>\<^verbatim>\<open>^\<close>\<close>
  | Eol                              \<comment> \<open>\<^verbatim>\<open>$\<close>\<close>

text \<open>
  Case-insensitive matching of a pattern character \<open>p\<close> (flag \<^verbatim>\<open>i\<close>).  The
  case-insensitive patterns of the program use ASCII letters, \<^verbatim>\<open>u\<close> with diaeresis and
  characters without case; \<^verbatim>\<open>re\<close> matches an ASCII letter with its other case, and
  besides \<^verbatim>\<open>i\<close> with U+0130 and U+0131, \<^verbatim>\<open>k\<close> with the Kelvin sign U+212A and
  \<^verbatim>\<open>s\<close> with the long s U+017F.
\<close>

definition ascii_lower :: "uchar \<Rightarrow> uchar" where
  "ascii_lower c = (if ascii_upper_letter c then c + 32 else c)"

definition re_lower :: "uchar \<Rightarrow> uchar" where
  "re_lower c =
     (if c < 128 then ascii_lower c
      else if c = 304 \<or> c = 305 then 105
      else if c = 8490 then 107
      else if c = 383 then 115
      else if c = 220 then 252
      else c)"

definition chr_match :: "bool \<Rightarrow> uchar \<Rightarrow> uchar \<Rightarrow> bool" where
  "chr_match icase p c \<longleftrightarrow> (if icase then re_lower c = re_lower p else c = p)"

fun item_match :: "unicode_db \<Rightarrow> bool \<Rightarrow> cset_item \<Rightarrow> uchar \<Rightarrow> bool" where
  "item_match U icase CDigit c = py_isdecimal U c"
| "item_match U icase CSpace c = py_isspace c"
| "item_match U icase (COne p) c = chr_match icase p c"
| "item_match U icase (CRange lo hi) c = (lo \<le> c \<and> c \<le> hi)"

definition cset_match :: "unicode_db \<Rightarrow> bool \<Rightarrow> cset_item list \<Rightarrow> uchar \<Rightarrow> bool" where
  "cset_match U icase items c = list_ex (\<lambda>i. item_match U icase i c) items"

text \<open>
  A matcher state: the subject left of the position (nearest character first), the
  subject from the position on, and the groups captured so far.
\<close>

record mstate =
  m_before :: ustring
  m_after :: ustring
  m_groups :: "(nat \<times> ustring) list"

definition step_if :: "(uchar \<Rightarrow> bool) \<Rightarrow> mstate \<Rightarrow> mstate list" where
  "step_if P st =
     (case m_after st of
        [] \<Rightarrow> []
      | c # cs \<Rightarrow> if P c then [st\<lparr>m_before := c # m_before st, m_after := cs\<rparr>] else [])"

definition at_word_boundary :: "unicode_db \<Rightarrow> mstate \<Rightarrow> bool" where
  "at_word_boundary U st \<longleftrightarrow>
     (case m_before st of [] \<Rightarrow> False | b # _ \<Rightarrow> re_word U b)
       \<noteq> (case m_after st of [] \<Rightarrow> False | c # _ \<Rightarrow> re_word U c)"

text \<open>
  A greedy repetition with at least \<open>lo\<close> and at most \<open>hi\<close> iterations of the matcher
  \<open>f\<close>: one more iteration is tried before stopping.
\<close>

fun rep :: "(mstate \<Rightarrow> mstate list) \<Rightarrow> nat \<Rightarrow> nat \<Rightarrow> mstate \<Rightarrow> mstate list" where
  "rep f lo 0 st = (if lo = 0 then [st] else [])"
| "rep f lo (Suc hi) st =
     concat (map (rep f (lo - 1) hi) (f st)) @ (if lo = 0 then [st] else [])"

text \<open>
  The text a group captured is what the sub-pattern consumed.  A repetition without an
  upper bound gets as many iterations as characters remain (plus the required ones): every
  repeated sub-pattern of the program consumes a character in each iteration.  \<^verbatim>\<open>$\<close>
  matches at the end and before a newline that ends the subject.
\<close>

fun run :: "unicode_db \<Rightarrow> bool \<Rightarrow> regex \<Rightarrow> mstate \<Rightarrow> mstate list" where
  "run U icase Eps st = [st]"
| "run U icase (Chr p) st = step_if (chr_match icase p) st"
| "run U icase (CSet items) st = step_if (cset_match U icase items) st"
| "run U icase (NSet items) st = step_if (\<lambda>c. \<not> cset_match U icase items c) st"
| "run U icase (Seq r1 r2) st = concat (map (run U icase r2) (run U icase r1 st))"
| "run U icase (Alt r1 r2) st = run U icase r1 st @ run U icase r2 st"
| "run U icase (Rep lo hi r) st =
     rep (run U icase r) lo (case hi of Some n \<Rightarrow> n | None \<Rightarrow> lo + length (m_after st)) st"
| "run U icase (Grp n r) st =
     map (\<lambda>st'. st'\<lparr>m_groups :=
             (n, take (length (m_after st) - length (m_after st')) (m_after st)) # m_groups st'\<rparr>)
         (run U icase r st)"
| "run U icase WordB st = (if at_word_boundary U st then [st] else [])"
| "run U icase NotAfterDigit st =
     (case m_before st of [] \<Rightarrow> [st] | b # _ \<Rightarrow> if py_isdecimal U b then [] else [st])"
| "run U icase Bol st = (if m_before st = [] then [st] else [])"
| "run U icase Eol st = (if m_after st = [] \<or> m_after st = [10] then [st] else [])"

text \<open>A match object: \<^verbatim>\<open>group(0)\<close> and the captured groups.\<close>

record rmatch =
  group0 :: ustring
  groups :: "(nat \<times> ustring) list"

definition mk_match :: "ustring \<Rightarrow> mstate \<Rightarrow> rmatch" where
  "mk_match aft st =
     \<lparr>group0 = take (length aft - length (m_after st)) aft, groups = m_groups st\<rparr>"

definition group :: "rmatch \<Rightarrow> nat \<Rightarrow> ustring option" where
  "group m n = map_of (groups m) n"

text \<open>\<^verbatim>\<open>pattern.match\<close>: the first way to match at the start of the subject.\<close>

definition re_match :: "unicode_db \<Rightarrow> bool \<Rightarrow> regex \<Rightarrow> ustring \<Rightarrow> rmatch option" where
  "re_match U icase r s =
     (case run U icase r \<lparr>m_before = [], m_after = s, m_groups = []\<rparr> of
        [] \<Rightarrow> None
      | st # _ \<Rightarrow> Some (mk_match s st))"

text \<open>\<^verbatim>\<open>pattern.fullmatch\<close>: the first way to match that ends at the end of the subject.\<close>

definition re_fullmatch :: "unicode_db \<Rightarrow> bool \<Rightarrow> regex \<Rightarrow> ustring \<Rightarrow> rmatch option" where
  "re_fullmatch U icase r s =
     (case filter (\<lambda>st. m_after st = [])
             (run U icase r \<lparr>m_before = [], m_after = s, m_groups = []\<rparr>) of
        [] \<Rightarrow> None
      | st # _ \<Rightarrow> Some (mk_match s st))"

text \<open>
  \<^verbatim>\<open>pattern.search\<close>: the first way to match at the leftmost position that has one;
  \<open>search_from\<close> scans the positions, with the subject split at the position.
\<close>

fun search_from :: "unicode_db \<Rightarrow> bool \<Rightarrow> regex \<Rightarrow> ustring \<Rightarrow> ustring \<Rightarrow> rmatch option" where
  "search_from U icase r bef [] =
     (case run U icase r \<lparr>m_before = bef, m_after = [], m_groups = []\<rparr> of
        [] \<Rightarrow> None
      | st # _ \<Rightarrow> Some (mk_match [] st))"
| "search_from U icase r bef (c # cs) =
     (case run U icase r \<lparr>m_before = bef, m_after = c # cs, m_groups = []\<rparr> of
        [] \<Rightarrow> search_from U icase r (c # bef) cs
      | st # _ \<Rightarrow> Some (mk_match (c # cs) st))"

definition re_search :: "unicode_db \<Rightarrow> bool \<Rightarrow> regex \<Rightarrow> ustring \<Rightarrow> rmatch option" where
  "re_search U icase r s = search_from U icase r [] s"

text \<open>Notation for writing the patterns down.\<close>

definition seqs :: "regex list \<Rightarrow> regex" where
  "seqs rs = foldr Seq rs Eps"

definition alts :: "regex list \<Rightarrow> regex" where
  "alts rs = (case rs of [] \<Rightarrow> NSet [CRange 0 1114111] | _ \<Rightarrow> foldr Alt (butlast rs) (last rs))"

definition ulit :: "ustring \<Rightarrow> regex" where
  "ulit s = seqs (map Chr s)"

definition lit :: "string \<Rightarrow> regex" where
  "lit s = ulit (asc s)"

definition opt :: "regex \<Rightarrow> regex" where
  "opt r = Rep 0 (Some 1) r"

definition star :: "regex \<Rightarrow> regex" where
  "star r = Rep 0 None r"

definition plus :: "regex \<Rightarrow> regex" where
  "plus r = Rep 1 None r"

definition digit :: regex where
  "digit = CSet [CDigit]"

definition spaces :: regex where
  "spaces = star (CSet [CSpace])"

definition euro :: uchar where
  "euro = 8364"

subsection \<open>The patterns\<close>

text \<open>
  \<^verbatim>\<open>PRICE_CORE = (?:\d{1,3}(?:[.,]\d{3})*(?:[.,]\d{2})|\d+[.,]\d{2})\<close>
\<close>

definition PRICE_CORE :: regex where
  "PRICE_CORE =
     Alt (seqs [Rep 1 (Some 3) digit,
                star (Seq (CSet [COne 46, COne 44]) (Rep 3 (Some 3) digit)),
                Seq (CSet [COne 46, COne 44]) (Rep 2 (Some 2) digit)])
         (seqs [plus digit, CSet [COne 46, COne 44], Rep 2 (Some 2) digit])"

text \<open>\<^verbatim>\<open>(?:\<euro>|\bEUR\b)?\<close>, with the euro sign U+20AC.\<close>

definition euro_opt :: regex where
  "euro_opt = opt (Alt (Chr euro) (seqs [WordB, lit ''EUR'', WordB]))"

text \<open>
  \<^verbatim>\<open>PRICE_RE\<close>, flags \<^verbatim>\<open>x\<close> and \<^verbatim>\<open>i\<close>:
  \<^verbatim>\<open>(?<!\d)\s*(?:\<euro>|\bEUR\b)?\s*(PRICE_CORE)\s*(?:\<euro>|\bEUR\b)?(?:\s*[ABC])?\<close>
\<close>

definition PRICE_RE :: regex where
  "PRICE_RE =
     seqs [NotAfterDigit, spaces, euro_opt, spaces, Grp 1 PRICE_CORE, spaces, euro_opt,
           opt (Seq spaces (CSet [COne 65, COne 66, COne 67]))]"

text \<open>
  \<^verbatim>\<open>PRICE_WITH_VAT_RE\<close>, flags \<^verbatim>\<open>x\<close> and \<^verbatim>\<open>i\<close>:
  \<^verbatim>\<open>(?<!\d)\s*(?:\<euro>|\bEUR\b)?\s*(PRICE_CORE)\s*(?:\<euro>|\bEUR\b)?\s*([ABC])\b\<close>
\<close>

definition PRICE_WITH_VAT_RE :: regex where
  "PRICE_WITH_VAT_RE =
     seqs [NotAfterDigit, spaces, euro_opt, spaces, Grp 1 PRICE_CORE, spaces, euro_opt,
           spaces, Grp 2 (CSet [COne 65, COne 66, COne 67]), WordB]"

text \<open>
  \<^verbatim>\<open>BAD_NAME_KEYWORDS_RE\<close>, flag \<^verbatim>\<open>i\<close>:
  \<^verbatim>\<open>\b(summe|zwischensumme|gesamt|total|zu\s*zahlen|rundung|rabatt|pfand|ec[-\s]*cash|kundenbeleg|kassenbon|kassenbeleg|uid|steuern?|mwst|ust|eur$)\b\<close>
\<close>

definition BAD_NAME_KEYWORDS_RE :: regex where
  "BAD_NAME_KEYWORDS_RE =
     seqs [WordB,
           Grp 1 (alts [lit ''summe'', lit ''zwischensumme'', lit ''gesamt'', lit ''total'',
                        seqs [lit ''zu'', spaces, lit ''zahlen''], lit ''rundung'',
                        lit ''rabatt'', lit ''pfand'',
                        seqs [lit ''ec'', star (CSet [COne 45, CSpace]), lit ''cash''],
                        lit ''kundenbeleg'', lit ''kassenbon'', lit ''kassenbeleg'',
                        lit ''uid'', seqs [lit ''steuer'', opt (Chr 110)], lit ''mwst'',
                        lit ''ust'', seqs [lit ''eur'', Eol]]),
           WordB]"

text \<open>The word \<^verbatim>\<open>st\<udieresis>ck\<close>; the third letter is U+00FC.\<close>

definition stueck :: regex where
  "stueck = ulit (asc ''st'' @ [252] @ asc ''ck'')"

text \<open>\<^verbatim>\<open>QTY_ONLY_RE\<close>, flag \<^verbatim>\<open>i\<close>: \<^verbatim>\<open>^\s*\d+\s*(stk|st\<udieresis>ck|x)\b\<close>\<close>

definition QTY_ONLY_RE :: regex where
  "QTY_ONLY_RE =
     seqs [Bol, spaces, plus digit, spaces, Grp 1 (alts [lit ''stk'', stueck, lit ''x'']), WordB]"

text \<open>
  \<^verbatim>\<open>UNIT_PRICE_RE\<close>, flags \<^verbatim>\<open>x\<close> and \<^verbatim>\<open>i\<close>:
  \<^verbatim>\<open>(?:\<euro>\s*/\s*(kg|g|100g|l|ml|stk|st\<udieresis>ck)|(pro|per)\s*(kg|g|100g|l|ml|stk|st\<udieresis>ck)|/(kg|g|100g|l|ml))\<close>
\<close>

definition UNIT_PRICE_RE :: regex where
  "UNIT_PRICE_RE =
     alts [seqs [Chr euro, spaces, Chr 47, spaces,
                 Grp 1 (alts [lit ''kg'', lit ''g'', lit ''100g'', lit ''l'', lit ''ml'',
                              lit ''stk'', stueck])],
           seqs [Grp 2 (alts [lit ''pro'', lit ''per'']), spaces,
                 Grp 3 (alts [lit ''kg'', lit ''g'', lit ''100g'', lit ''l'', lit ''ml'',
                              lit ''stk'', stueck])],
           seqs [Chr 47,
                 Grp 4 (alts [lit ''kg'', lit ''g'', lit ''100g'', lit ''l'', lit ''ml''])]]"

text \<open>
  \<^verbatim>\<open>IGNORE_NAME_TOKENS_RE\<close>, no flag: the euro sign, \<^verbatim>\<open>EUR\<close>, one of \<^verbatim>\<open>A\<close>,
  \<^verbatim>\<open>B\<close>, \<^verbatim>\<open>C\<close>, or one of the circled digits U+2460 to U+2468, between \<^verbatim>\<open>^\<close>
  and \<^verbatim>\<open>$\<close>.
\<close>

definition IGNORE_NAME_TOKENS_RE :: regex where
  "IGNORE_NAME_TOKENS_RE =
     seqs [Bol,
           alts [Chr euro, lit ''EUR'', CSet [COne 65, COne 66, COne 67],
                 CSet [COne 9312, COne 9313, COne 9314, COne 9315, COne 9316, COne 9317,
                       COne 9318, COne 9319, COne 9320]],
           Eol]"

text \<open>The pattern \<^verbatim>\<open>\d{1,3}\,\d{3}\<close> of \<^verbatim>\<open>parse_price_value\<close>.\<close>

definition THOUSANDS_RE :: regex where
  "THOUSANDS_RE = seqs [Rep 1 (Some 3) digit, Chr 44, Rep 3 (Some 3) digit]"

text \<open>The pattern \<^verbatim>\<open>[-+]?\d*\.?\d+|\d+\<close> of \<^verbatim>\<open>parse_price_value\<close>.\<close>

definition NUMBER_RE :: regex where
  "NUMBER_RE =
     Alt (seqs [opt (CSet [COne 45, COne 43]), star digit, opt (Chr 46), plus digit])
         (plus digit)"

section \<open>Price parsing\<close>

text \<open>\<^verbatim>\<open>s.rfind(c)\<close>: the last index of the character, or \<open>-1\<close>.\<close>

fun rfind_from :: "uchar \<Rightarrow> ustring \<Rightarrow> int \<Rightarrow> int \<Rightarrow> int" where
  "rfind_from c [] i found = found"
| "rfind_from c (x # xs) i found = rfind_from c xs (i + 1) (if x = c then i else found)"

definition py_rfind :: "uchar \<Rightarrow> ustring \<Rightarrow> int" where
  "py_rfind c s = rfind_from c s 0 (- 1)"

text \<open>\<^verbatim>\<open>s.replace(c, new)\<close> for a one-character \<open>c\<close>.\<close>

definition py_replace :: "uchar \<Rightarrow> ustring \<Rightarrow> ustring \<Rightarrow> ustring" where
  "py_replace c new s = concat (map (\<lambda>x. if x = c then new else [x]) s)"

text \<open>
  A Python float as far as the program can produce one from a text: a finite value or an
  infinity.  \<^verbatim>\<open>float\<close> rounds a decimal to the nearest double; a decimal of magnitude
  \<open>2 ^ 1024 - 2 ^ 970\<close> or more (half way between the largest double and \<open>2 ^ 1024\<close>)
  rounds to an infinity.  A finite value is kept as the exact decimal: the rounding inside
  the finite range is not modelled.
\<close>

datatype pyfloat = Finite real | PosInf | NegInf

definition float_overflow :: real where
  "float_overflow = 2 ^ 1024 - 2 ^ 970"

definition to_float :: "real \<Rightarrow> pyfloat" where
  "to_float v =
     (if v \<ge> float_overflow then PosInf
      else if v \<le> - float_overflow then NegInf
      else Finite v)"

text \<open>
  \<^verbatim>\<open>float\<close> on the texts the number pattern can match: an optional sign, digits, an
  optional point, digits, with a digit somewhere.  \<open>None\<close> stands for \<^verbatim>\<open>ValueError\<close>.
\<close>

fun digits_value :: "unicode_db \<Rightarrow> ustring \<Rightarrow> nat \<Rightarrow> nat option" where
  "digits_value U [] acc = Some acc"
| "digits_value U (c # cs) acc =
     (case decimal_value U c of None \<Rightarrow> None | Some d \<Rightarrow> digits_value U cs (10 * acc + d))"

definition py_float :: "unicode_db \<Rightarrow> ustring \<Rightarrow> pyfloat option" where
  "py_float U s =
     (let negative = (case s of [] \<Rightarrow> False | c # _ \<Rightarrow> c = 45);
          body = (case s of [] \<Rightarrow> [] | c # cs \<Rightarrow> if c = 45 \<or> c = 43 then cs else s);
          int_part = takeWhile (\<lambda>c. c \<noteq> 46) body;
          frac_part = drop 1 (dropWhile (\<lambda>c. c \<noteq> 46) body)
      in if int_part = [] \<and> frac_part = [] then None
         else case (digits_value U int_part 0, digits_value U frac_part 0) of
                (Some i, Some f) \<Rightarrow>
                  Some (to_float ((if negative then - 1 else 1)
                                  * (real i + real f / 10 ^ length frac_part)))
              | _ \<Rightarrow> None)"

text \<open>The text of \<^verbatim>\<open>parse_price_value\<close> after the locale decision.\<close>

definition normalize_separators :: "unicode_db \<Rightarrow> ustring \<Rightarrow> ustring" where
  "normalize_separators U s =
     (let last_comma = py_rfind 44 s;
          last_dot = py_rfind 46 s
      in if last_comma > last_dot then py_replace 44 [46] (py_replace 46 [] s)
         else if 44 \<in> set s \<and> re_search U False THOUSANDS_RE s \<noteq> None
         then py_replace 44 [] s
         else py_replace 44 [46] s)"

text \<open>
  \<^verbatim>\<open>parse_price_value\<close>; \<^verbatim>\<open>nums[0]\<close> of \<^verbatim>\<open>re.findall\<close> is the first match of the
  number pattern, and \<^verbatim>\<open>nums\<close> is empty when there is none.
\<close>

definition parse_price_value :: "unicode_db \<Rightarrow> ustring \<Rightarrow> pyfloat option \<times> string" where
  "parse_price_value U raw =
     (let cur = ''EUR'';
          s = normalize_separators U (py_strip raw)
      in case re_search U False NUMBER_RE s of
           None \<Rightarrow> (None, cur)
         | Some m \<Rightarrow> (case py_float U (group0 m) of
                        Some v \<Rightarrow> (Some v, cur)
                      | None \<Rightarrow> (None, cur)))"

section \<open>Tax tag normalization\<close>

text \<open>
  \<^verbatim>\<open>_VISUAL_MAP\<close>, in the order of the dict literal; the key U+00DF occurs twice with
  the same value.
\<close>

definition VISUAL_MAP :: "(uchar \<times> ustring) list" where
  "VISUAL_MAP =
     [(914, asc ''B''), (1042, asc ''B''), (1040, asc ''A''), (913, asc ''A''),
      (1057, asc ''C''), (1017, asc ''C''),
      (3647, asc ''B''), (579, asc ''B''),
      (56, asc ''B''), (51, asc ''B''), (223, asc ''B''),
      (48, asc ''O''), (49, asc ''I''), (108, asc ''I''),
      (223, asc ''B''), (945, asc ''A''), (1089, asc ''C'')]"

definition is_abc :: "ustring \<Rightarrow> bool" where
  "is_abc s \<longleftrightarrow> s = asc ''A'' \<or> s = asc ''B'' \<or> s = asc ''C''"

text \<open>
  The Unicode-name heuristics of \<^verbatim>\<open>_map_char_to_abc\<close>.  An ASCII character has no name
  or a name without \<^verbatim>\<open>GREEK\<close> and \<^verbatim>\<open>CYRILLIC\<close>, so the heuristics give nothing on
  ASCII; elsewhere the name comes from the database, and a character without a name makes
  \<^verbatim>\<open>unicodedata.name\<close> raise, which the \<^verbatim>\<open>except\<close> clause turns into no result.
\<close>

definition name_heuristics :: "unicode_db \<Rightarrow> uchar \<Rightarrow> ustring option" where
  "name_heuristics U ch =
     (if ch < 128 then None
      else case u_name U ch of
             None \<Rightarrow> None
           | Some name \<Rightarrow>
               if py_in (asc ''GREEK'') name \<and> py_in (asc ''BETA'') name then Some (asc ''B'')
               else if py_in (asc ''CYRILLIC'') name
               then if py_in (asc ''VE'') name \<or> py_in (asc ''VE'') (py_upper U name)
                    then Some (asc ''B'')
                    else if py_in (asc ''A'') name then Some (asc ''A'') else None
               else None)"

definition map_char_to_abc :: "unicode_db \<Rightarrow> uchar \<Rightarrow> ustring option" where
  "map_char_to_abc U ch =
     (let up = py_upper_char U ch
      in if is_abc up then Some up
         else case map_of VISUAL_MAP ch of
                Some v \<Rightarrow> Some v
              | None \<Rightarrow> name_heuristics U ch)"

text \<open>
  \<^verbatim>\<open>unicodedata.normalize('NFKD', s)\<close> followed by the removal of the characters of a
  mark category.  The decomposition replaces every character by its decomposition and
  then reorders marks only, so after the removal of the marks it is the concatenation of
  the decompositions; ASCII characters decompose to themselves and are no marks.
\<close>

definition nfkd_char :: "unicode_db \<Rightarrow> uchar \<Rightarrow> ustring" where
  "nfkd_char U c = (if c < 128 then [c] else u_nfkd U c)"

definition is_mark :: "unicode_db \<Rightarrow> uchar \<Rightarrow> bool" where
  "is_mark U c \<longleftrightarrow> (if c < 128 then False else u_mark U c)"

definition nfkd_strip_marks :: "unicode_db \<Rightarrow> ustring \<Rightarrow> ustring" where
  "nfkd_strip_marks U s = filter (\<lambda>ch. \<not> is_mark U ch) (concat (map (nfkd_char U) s))"

text \<open>
  \<^verbatim>\<open>re.sub(r'[^0-9A-Za-z\u0370-\u03FF\u0400-\u04FF]', '', s)\<close>: only the characters
  of the class stay.
\<close>

definition keep_alnum :: "ustring \<Rightarrow> ustring" where
  "keep_alnum s =
     filter (\<lambda>c. (48 \<le> c \<and> c \<le> 57) \<or> (65 \<le> c \<and> c \<le> 90) \<or> (97 \<le> c \<and> c \<le> 122)
                 \<or> (880 \<le> c \<and> c \<le> 1023) \<or> (1024 \<le> c \<and> c \<le> 1279)) s"

text \<open>The loop \<^verbatim>\<open>for c in mapped: if c in ('A', 'B', 'C'): return c\<close>.\<close>

definition first_abc :: "ustring list \<Rightarrow> ustring option" where
  "first_abc mapped = (case filter is_abc mapped of [] \<Rightarrow> None | c # _ \<Rightarrow> Some c)"

definition normalize_vat_token :: "unicode_db \<Rightarrow> ustring \<Rightarrow> ustring option" where
  "normalize_vat_token U txt =
     (if txt = [] then None
      else if py_strip txt = [] then None
      else let s = nfkd_strip_marks U (py_strip txt);
               s_alnum = keep_alnum s
           in if s_alnum = [] then (if list_ex (\<lambda>ch. \<not> py_isdigit U ch) s then Some (asc ''B'') else None)
              else case first_abc (List.map_filter (map_char_to_abc U) s_alnum) of
                     Some c \<Rightarrow> Some c
                   | None \<Rightarrow>
                       if length s_alnum = 1 \<and> \<not> list_all (py_isdigit U) s_alnum
                       then Some (asc ''B'')
                       else let letters = filter (\<lambda>c. \<not> py_isdecimal U c) s_alnum
                            in if letters \<noteq> []
                               then let candidate = py_upper_char U (hd letters)
                                    in if is_abc candidate then Some candidate
                                       else if length letters \<le> 2 then Some (asc ''B'')
                                       else None
                               else None)"

text \<open>Python's truth value of an optional string: neither \<^verbatim>\<open>None\<close> nor empty.\<close>

definition truthy :: "ustring option \<Rightarrow> bool" where
  "truthy v \<longleftrightarrow> (case v of None \<Rightarrow> False | Some s \<Rightarrow> s \<noteq> [])"

text \<open>
  \<^verbatim>\<open>_has_inline_vat_tag\<close>.  Group 2 takes part in every match of
  \<^verbatim>\<open>PRICE_WITH_VAT_RE\<close>.
\<close>

definition has_inline_vat_tag :: "unicode_db \<Rightarrow> ustring \<Rightarrow> ustring option" where
  "has_inline_vat_tag U txt =
     (case re_search U True PRICE_WITH_VAT_RE txt of
        Some m \<Rightarrow> map_option (py_upper U) (group m 2)
      | None \<Rightarrow> normalize_vat_token U txt)"

section \<open>Nearby tax tags\<close>

text \<open>
  The program tells a price token from the other tokens of its row by object identity
  (\<^verbatim>\<open>t is not price_tok\<close>).  The tokens of a row are distinct objects (every extractor
  builds a fresh dict per token, and the row grouper puts each into one row once), so the
  model names a token of a row by its position: the others are the row without that
  position.
\<close>

definition others :: "nat \<Rightarrow> token list \<Rightarrow> token list" where
  "others pidx row = take pidx row @ drop (Suc pidx) row"

definition x_center :: "token \<Rightarrow> real" where
  "x_center t = (bx1 (tok_box t) + bx2 (tok_box t)) / 2"

text \<open>
  The three loops have one shape: the first token of the list whose text normalizes to a
  tag and whose box passes the test \<open>ok\<close> gives the tag.
\<close>

fun scan_tags :: "unicode_db \<Rightarrow> (token \<Rightarrow> bool) \<Rightarrow> token list \<Rightarrow> ustring option" where
  "scan_tags U ok [] = None"
| "scan_tags U ok (t # ts) =
     (let vat = normalize_vat_token U (tok_text t)
      in if truthy vat \<and> ok t then vat else scan_tags U ok ts)"

definition same_row_ok :: "token \<Rightarrow> token \<Rightarrow> bool" where
  "same_row_ok price_tok t \<longleftrightarrow>
     bx1 (tok_box t) \<le> bx2 (tok_box price_tok) + 40
     \<and> vertical_overlap_ratio (tok_box price_tok) (tok_box t) \<ge> 15 / 100"

definition same_row_vat_tag :: "unicode_db \<Rightarrow> token \<Rightarrow> nat \<Rightarrow> token list \<Rightarrow> ustring option" where
  "same_row_vat_tag U price_tok pidx row =
     (let neighbors = sort_key (\<lambda>t. \<bar>x_center t - x_center price_tok\<bar>) (others pidx row)
      in scan_tags U (same_row_ok price_tok) neighbors)"

definition price_height :: "token \<Rightarrow> real" where
  "price_height price_tok = max 1 (by2 (tok_box price_tok) - by1 (tok_box price_tok))"

definition below_ok :: "token \<Rightarrow> token \<Rightarrow> bool" where
  "below_ok price_tok t \<longleftrightarrow>
     bx1 (tok_box price_tok) - 40 \<le> x_center t \<and> x_center t \<le> bx2 (tok_box price_tok) + 40
     \<and> 0 \<le> by1 (tok_box t) - by2 (tok_box price_tok)
     \<and> by1 (tok_box t) - by2 (tok_box price_tok) \<le> max 8 (15 / 10 * price_height price_tok)"

definition above_ok :: "token \<Rightarrow> nat \<Rightarrow> token \<Rightarrow> bool" where
  "above_ok price_tok u t \<longleftrightarrow>
     bx1 (tok_box price_tok) - 50 \<le> x_center t \<and> x_center t \<le> bx2 (tok_box price_tok) + 50
     \<and> 0 \<le> by1 (tok_box price_tok) - by2 (tok_box t)
     \<and> by1 (tok_box price_tok) - by2 (tok_box t)
         \<le> max 12 (18 / 10 * price_height price_tok * real u)"

text \<open>
  The loop over the rows below, \<^verbatim>\<open>for d in range(1, search_below_rows + 1)\<close>, given the
  list of the distances still to try; it stops at the end of the rows.
\<close>

fun below_rows_vat_tag ::
  "unicode_db \<Rightarrow> token \<Rightarrow> token list list \<Rightarrow> nat \<Rightarrow> nat list \<Rightarrow> ustring option" where
  "below_rows_vat_tag U price_tok rows ridx [] = None"
| "below_rows_vat_tag U price_tok rows ridx (d # ds) =
     (if ridx + d \<ge> length rows then None
      else case scan_tags U (below_ok price_tok) (rows ! (ridx + d)) of
             Some vat \<Rightarrow> Some vat
           | None \<Rightarrow> below_rows_vat_tag U price_tok rows ridx ds)"

text \<open>
  The loop over the rows above, \<^verbatim>\<open>for u in range(1, search_above_rows + 1)\<close>; it stops
  at the first row.
\<close>

fun above_rows_vat_tag ::
  "unicode_db \<Rightarrow> token \<Rightarrow> token list list \<Rightarrow> nat \<Rightarrow> nat list \<Rightarrow> ustring option" where
  "above_rows_vat_tag U price_tok rows ridx [] = None"
| "above_rows_vat_tag U price_tok rows ridx (u # us) =
     (if ridx < u then None
      else case scan_tags U (above_ok price_tok u) (rows ! (ridx - u)) of
             Some vat \<Rightarrow> Some vat
           | None \<Rightarrow> above_rows_vat_tag U price_tok rows ridx us)"

text \<open>
  \<^verbatim>\<open>_nearby_vat_tag_for_price_rows\<close> with its defaults \<^verbatim>\<open>search_above_rows=3\<close> and
  \<^verbatim>\<open>search_below_rows=1\<close>; the price token is at position \<open>pidx\<close> of row \<open>ridx\<close>.
\<close>

definition nearby_vat_tag_for_price_rows ::
  "unicode_db \<Rightarrow> token \<Rightarrow> nat \<Rightarrow> token list list \<Rightarrow> nat \<Rightarrow> ustring option" where
  "nearby_vat_tag_for_price_rows U price_tok pidx rows ridx =
     (case same_row_vat_tag U price_tok pidx (rows ! ridx) of
        Some vat \<Rightarrow> Some vat
      | None \<Rightarrow>
          (case below_rows_vat_tag U price_tok rows ridx [1] of
             Some vat \<Rightarrow> Some vat
           | None \<Rightarrow> above_rows_vat_tag U price_tok rows ridx [1, 2, 3]))"

section \<open>Names\<close>

definition price_search :: "unicode_db \<Rightarrow> token \<Rightarrow> bool" where
  "price_search U t \<longleftrightarrow> re_search U True PRICE_RE (tok_text t) \<noteq> None"

definition unit_price_search :: "unicode_db \<Rightarrow> ustring \<Rightarrow> bool" where
  "unit_price_search U txt \<longleftrightarrow> re_search U True UNIT_PRICE_RE txt \<noteq> None"

text \<open>\<^verbatim>\<open>sep.join(parts)\<close>\<close>

fun py_join :: "ustring \<Rightarrow> ustring list \<Rightarrow> ustring" where
  "py_join sep [] = []"
| "py_join sep [p] = p"
| "py_join sep (p # q # ps) = p @ sep @ py_join sep (q # ps)"

definition is_unit_price_context :: "unicode_db \<Rightarrow> token list \<Rightarrow> bool" where
  "is_unit_price_context U row = unit_price_search U (py_join [32] (map tok_text row))"

definition is_bad_name :: "unicode_db \<Rightarrow> ustring \<Rightarrow> bool" where
  "is_bad_name U name =
     (let n = py_strip name
      in if n = [] then True
         else if py_upper U n = asc ''EUR'' \<or> py_upper U n = [euro] then True
         else if re_search U True BAD_NAME_KEYWORDS_RE n \<noteq> None then True
         else False)"

definition build_name_from_left_tokens :: "unicode_db \<Rightarrow> token list \<Rightarrow> ustring" where
  "build_name_from_left_tokens U tokens =
     (let parts = filter (\<lambda>txt. txt \<noteq> [] \<and> re_fullmatch U False IGNORE_NAME_TOKENS_RE txt = None)
                    (map (\<lambda>t. py_strip (tok_text t)) tokens)
      in py_strip (py_join [32] parts))"

text \<open>
  The loop \<^verbatim>\<open>for i in range(1, 4)\<close> of \<^verbatim>\<open>_find_name_tokens_for_price\<close> over the rows
  above, given the distances still to try.
\<close>

fun name_tokens_above ::
  "unicode_db \<Rightarrow> real \<Rightarrow> token list list \<Rightarrow> nat \<Rightarrow> nat list \<Rightarrow> token list" where
  "name_tokens_above U px_center rows ridx [] = []"
| "name_tokens_above U px_center rows ridx (i # is) =
     (if ridx < i then []
      else let prev = rows ! (ridx - i);
               cand = filter (\<lambda>t. \<not> price_search U t \<and> \<not> unit_price_search U (tok_text t)) prev;
               cand' = filter (\<lambda>t. x_center t < px_center + 35) cand
           in if cand' \<noteq> [] then cand' else name_tokens_above U px_center rows ridx is)"

definition find_name_tokens_for_price ::
  "unicode_db \<Rightarrow> token \<Rightarrow> nat \<Rightarrow> token list list \<Rightarrow> nat \<Rightarrow> token list" where
  "find_name_tokens_for_price U pt pidx rows ridx =
     (let left_same_row =
            filter (\<lambda>t. bx2 (tok_box t) \<le> bx1 (tok_box pt) - 2
                        \<and> \<not> price_search U t \<and> \<not> unit_price_search U (tok_text t))
                   (others pidx (rows ! ridx))
      in if left_same_row \<noteq> [] then left_same_row
         else let above = name_tokens_above U (x_center pt) rows ridx [1, 2, 3]
              in if above \<noteq> [] then above
                 else if ridx \<ge> 1
                 then filter (\<lambda>t. \<not> price_search U t
                                  \<and> vertical_overlap_ratio (tok_box t) (tok_box pt) \<ge> 5 / 100)
                             (rows ! (ridx - 1))
                 else [])"

section \<open>Item building\<close>

record price =
  raw :: ustring
  val :: pyfloat
  currency :: string
  vatTag :: ustring

record item =
  rowIndex :: nat
  name :: ustring
  nameBox :: box
  price :: price
  priceBox :: box
  confidence :: "real option"

text \<open>\<^verbatim>\<open>len(name.split()) <= 3\<close>: the number of maximal runs of characters that are not
  white space.\<close>

fun count_words :: "bool \<Rightarrow> ustring \<Rightarrow> nat" where
  "count_words in_word [] = 0"
| "count_words in_word (c # cs) =
     (if py_isspace c then count_words False cs
      else (if in_word then 0 else 1) + count_words True cs)"

text \<open>The tag of a price token: inline first, then the search among the tokens nearby.\<close>

definition resolve_vat :: "unicode_db \<Rightarrow> token list list \<Rightarrow> nat \<Rightarrow> nat \<Rightarrow> token \<Rightarrow> ustring option" where
  "resolve_vat U rows ridx pidx pt =
     (let vat = has_inline_vat_tag U (tok_text pt)
      in if \<not> truthy vat then nearby_vat_tag_for_price_rows U pt pidx rows ridx else vat)"

text \<open>
  The body of the loop over the price tokens of a row: \<open>None\<close> where the source says
  \<^verbatim>\<open>continue\<close>, the item it appends otherwise.
\<close>

definition item_for_price ::
  "unicode_db \<Rightarrow> token list list \<Rightarrow> nat \<Rightarrow> bool \<Rightarrow> nat \<times> token \<Rightarrow> item option" where
  "item_for_price U rows ridx row_has_unit_ctx p =
     (let pidx = fst p; pt = snd p;
          raw_text = tok_text pt;
          vat = resolve_vat U rows ridx pidx pt
      in if \<not> truthy vat then None
         else if row_has_unit_ctx \<or> unit_price_search U raw_text then None
         else let name_tokens = find_name_tokens_for_price U pt pidx rows ridx
              in if name_tokens = [] then None
                 else let name = build_name_from_left_tokens U name_tokens
                      in if is_bad_name U name then None
                         else if re_match U True QTY_ONLY_RE name \<noteq> None \<and> count_words False name \<le> 3
                         then None
                         else case re_search U True PRICE_RE raw_text of
                                None \<Rightarrow> None
                              | Some m \<Rightarrow>
                                  (let raw_price = group0 m
                                   in case fst (parse_price_value U raw_price) of
                                        None \<Rightarrow> None
                                      | Some v \<Rightarrow>
                                          Some \<lparr>rowIndex = ridx, name = name,
                                                nameBox = union_box name_tokens,
                                                price = \<lparr>raw = raw_price, val = v,
                                                          currency = ''EUR'', vatTag = the vat\<rparr>,
                                                priceBox = tok_box pt,
                                                confidence = tok_score pt\<rparr>))"

text \<open>The price tokens of a row, each with its position in the row.\<close>

definition price_tokens :: "unicode_db \<Rightarrow> token list \<Rightarrow> (nat \<times> token) list" where
  "price_tokens U row = filter (\<lambda>p. price_search U (snd p)) (enumerate 0 row)"

text \<open>
  \<^verbatim>\<open>build_items_from_rows\<close>: the two loops, with the list \<^verbatim>\<open>items\<close> passed along and
  extended by \<^verbatim>\<open>items.append\<close>.
\<close>

definition price_loop_step ::
  "unicode_db \<Rightarrow> token list list \<Rightarrow> nat \<Rightarrow> bool \<Rightarrow> nat \<times> token \<Rightarrow> item list \<Rightarrow> item list" where
  "price_loop_step U rows ridx row_has_unit_ctx p items =
     (case item_for_price U rows ridx row_has_unit_ctx p of
        None \<Rightarrow> items
      | Some it \<Rightarrow> items @ [it])"

definition row_loop_step ::
  "unicode_db \<Rightarrow> token list list \<Rightarrow> nat \<times> token list \<Rightarrow> item list \<Rightarrow> item list" where
  "row_loop_step U rows r items =
     (let ridx = fst r; row = snd r;
          row_has_unit_ctx = is_unit_price_context U row
      in fold (price_loop_step U rows ridx row_has_unit_ctx) (price_tokens U row) items)"

definition build_items_from_rows :: "unicode_db \<Rightarrow> token list list \<Rightarrow> item list" where
  "build_items_from_rows U rows = fold (row_loop_step U rows) (enumerate 0 rows) []"

section \<open>Deduplication\<close>

text \<open>
  The deduplication loops of \<^verbatim>\<open>process_image\<close>.  The inner loop decides whether the
  new token \<open>t\<close> is skipped, going through the accepted tokens until one makes it stop.
\<close>

fun dedupe_skip :: "token \<Rightarrow> token list \<Rightarrow> bool" where
  "dedupe_skip t [] = False"
| "dedupe_skip t (u # us) =
     (if vertical_overlap_ratio (tok_box t) (tok_box u) > 6 / 10
      then if py_strip (tok_text t) = py_strip (tok_text u) then True
           else if py_in (py_strip (tok_text t)) (tok_text u)
                   \<and> length (tok_text u) > length (tok_text t) then True
           else dedupe_skip t us
      else dedupe_skip t us)"

definition dedupe_step :: "token \<Rightarrow> token list \<Rightarrow> token list" where
  "dedupe_step t deduped = (if dedupe_skip t deduped then deduped else deduped @ [t])"

definition dedupe :: "token list \<Rightarrow> token list" where
  "dedupe all_tokens = fold dedupe_step all_tokens []"

text \<open>The part of \<^verbatim>\<open>process_image\<close> from the deduplicated tokens to the items.\<close>

definition rows_to_items :: "unicode_db \<Rightarrow> token list \<Rightarrow> item list" where
  "rows_to_items U all_tokens = build_items_from_rows U (group_rows_default all_tokens)"

section \<open>The locale rule of the specification\<close>

text \<open>
  The locale decision in the words of the specification, to be compared with
  \<open>normalize_separators\<close>: if a comma occurs after the last dot, the comma is the decimal
  separator and the dots are removed; else if a comma is followed by a 3-digit group
  (a digit, the comma, three digits), the commas are stripped; otherwise the comma is the
  decimal separator.
\<close>

definition comma_after_last_dot :: "ustring \<Rightarrow> bool" where
  "comma_after_last_dot s \<longleftrightarrow> 44 \<in> set (takeWhile (\<lambda>c. c \<noteq> 46) (rev s))"

fun digit_comma_3digits :: "unicode_db \<Rightarrow> ustring \<Rightarrow> bool" where
  "digit_comma_3digits U (d # c # x # y # z # rest) =
     (py_isdecimal U d \<and> c = 44 \<and> py_isdecimal U x \<and> py_isdecimal U y \<and> py_isdecimal U z)"
| "digit_comma_3digits U s = False"

fun thousands_comma :: "unicode_db \<Rightarrow> ustring \<Rightarrow> bool" where
  "thousands_comma U [] = False"
| "thousands_comma U (c # cs) = (digit_comma_3digits U (c # cs) \<or> thousands_comma U cs)"

definition locale_rule_spec :: "unicode_db \<Rightarrow> ustring \<Rightarrow> ustring" where
  "locale_rule_spec U s =
     (if comma_after_last_dot s
      then map (\<lambda>c. if c = 44 then 46 else c) (filter (\<lambda>c. c \<noteq> 46) s)
      else if thousands_comma U s then filter (\<lambda>c. c \<noteq> 44) s
      else map (\<lambda>c. if c = 44 then 46 else c) s)"

text \<open>
  What \<^verbatim>\<open>\d{1,3}\,\d{3}\<close> needs at a position: one, two or three digits, the last of
  them before a comma and three digits.
\<close>

definition thousands_here :: "unicode_db \<Rightarrow> ustring \<Rightarrow> bool" where
  "thousands_here U a \<longleftrightarrow>
     digit_comma_3digits U a
     \<or> (case a of
           [] \<Rightarrow> False
         | d # a' \<Rightarrow>
             py_isdecimal U d \<and>
             (digit_comma_3digits U a'
              \<or> (case a' of
                    [] \<Rightarrow> False
                  | d' # a'' \<Rightarrow> py_isdecimal U d' \<and> digit_comma_3digits U a'')))"

fun thousands_here_any :: "unicode_db \<Rightarrow> ustring \<Rightarrow> bool" where
  "thousands_here_any U [] = False"
| "thousands_here_any U (c # cs) = (thousands_here U (c # cs) \<or> thousands_here_any U cs)"

section \<open>What a match consumes\<close>

text \<open>
  For the properties of all matches of a pattern: the words a pattern can consume, whatever
  stands around them (the assertions consume nothing), the groups of a pattern with their
  sub-patterns, and the groups that every match of the pattern sets.
\<close>

inductive consumes :: "unicode_db \<Rightarrow> bool \<Rightarrow> regex \<Rightarrow> ustring \<Rightarrow> bool"
  for U :: unicode_db and icase :: bool where
  c_Eps: "consumes U icase Eps []"
| c_Chr: "chr_match icase p c \<Longrightarrow> consumes U icase (Chr p) [c]"
| c_CSet: "cset_match U icase items c \<Longrightarrow> consumes U icase (CSet items) [c]"
| c_NSet: "\<not> cset_match U icase items c \<Longrightarrow> consumes U icase (NSet items) [c]"
| c_Seq: "consumes U icase r1 u \<Longrightarrow> consumes U icase r2 v \<Longrightarrow> consumes U icase (Seq r1 r2) (u @ v)"
| c_Alt1: "consumes U icase r1 u \<Longrightarrow> consumes U icase (Alt r1 r2) u"
| c_Alt2: "consumes U icase r2 u \<Longrightarrow> consumes U icase (Alt r1 r2) u"
| c_Rep0: "consumes U icase (Rep lo hi r) []"
| c_Rep: "consumes U icase r u \<Longrightarrow> consumes U icase (Rep lo hi r) v
          \<Longrightarrow> consumes U icase (Rep lo hi r) (u @ v)"
| c_Grp: "consumes U icase r u \<Longrightarrow> consumes U icase (Grp n r) u"
| c_WordB: "consumes U icase WordB []"
| c_NotAfterDigit: "consumes U icase NotAfterDigit []"
| c_Bol: "consumes U icase Bol []"
| c_Eol: "consumes U icase Eol []"








section \<open>The box of the specification and the items of a row\<close>

text \<open>
  The union bounding box of a list of tokens as the specification has it: the least left
  and top coordinates and the greatest right and bottom coordinates of their boxes.
\<close>

definition bounding_box_spec :: "token list \<Rightarrow> box" where
  "bounding_box_spec ts =
     (Min (set (map (\<lambda>t. bx1 (tok_box t)) ts)), Min (set (map (\<lambda>t. by1 (tok_box t)) ts)),
      Max (set (map (\<lambda>t. bx2 (tok_box t)) ts)), Max (set (map (\<lambda>t. by2 (tok_box t)) ts)))"



section \<open>Example inputs\<close>

text \<open>The row of the end-to-end example: a name, a price and a tag.\<close>

definition mk_token :: "string \<Rightarrow> box \<Rightarrow> real \<Rightarrow> token" where
  "mk_token s b conf = \<lparr>tok_text = asc s, tok_score = Some conf, tok_box = b\<rparr>"

definition milch_row :: "token list" where
  "milch_row =
     [mk_token ''Milch'' (0, 0, 80, 20) (9 / 10),
      mk_token ''2,49'' (200, 0, 240, 20) (95 / 100),
      mk_token ''A'' (245, 0, 255, 20) (9 / 10)]"

text \<open>
  A Unicode database for the examples: outside ASCII no character is a digit, a letter or
  a mark, and every character is its own upper case and decomposition.
\<close>

definition plain_db :: unicode_db where
  "plain_db =
     \<lparr>u_decimal = (\<lambda>c. None), u_isdigit = (\<lambda>c. False), u_isalnum = (\<lambda>c. False),
      u_upper = (\<lambda>c. [c]), u_nfkd = (\<lambda>c. [c]), u_mark = (\<lambda>c. False),
      u_name = (\<lambda>c. None)\<rparr>"

text \<open>A name far to the left of a price, and a tag far to the right of one.\<close>

definition cola_row :: "token list" where
  "cola_row =
     [mk_token ''Cola'' (0, 0, 80, 20) (9 / 10),
      mk_token ''2,49'' (200, 0, 240, 20) (95 / 100)]"

definition far_tag_row :: "token list" where
  "far_tag_row =
     [mk_token ''2,49'' (200, 0, 240, 20) (95 / 100),
      mk_token ''A'' (300, 0, 310, 20) (9 / 10)]"


definition tee_row :: "token list" where
  "tee_row =
     [mk_token ''Tee'' (0, 0, 80, 20) (9 / 10),
      mk_token ''2,49'' (200, 0, 240, 20) (95 / 100)]"

definition qty_row :: "token list" where
  "qty_row =
     [mk_token ''2 x'' (0, 0, 80, 20) (9 / 10),
      mk_token ''4,49'' (200, 0, 240, 20) (95 / 100),
      mk_token ''A'' (245, 0, 255, 20) (9 / 10)]"

definition milch_item :: "nat \<Rightarrow> real \<Rightarrow> item" where
  "milch_item ridx y =
     \<lparr>rowIndex = ridx, name = asc ''Milch'', nameBox = (0, y, 80, y + 20),
      price = \<lparr>raw = asc ''2,49'', val = Finite (249 / 100), currency = ''EUR'', vatTag = asc ''A''\<rparr>,
      priceBox = (200, y, 240, y + 20), confidence = Some (95 / 100)\<rparr>"

section \<open>Evaluation\<close>

text \<open>
  The unfolding rules with which the simplifier runs the functions on concrete inputs.
\<close>

lemma rep_numeral:
  "rep f lo (numeral k) st =
     concat (map (rep f (lo - 1) (pred_numeral k)) (f st)) @ (if lo = 0 then [st] else [])"
  by (simp add: numeral_eq_Suc)

lemmas unicode_eval = py_isspace_def ascii_digit_def ascii_upper_letter_def
  ascii_lower_letter_def decimal_value_def py_isdecimal_def py_isdigit_def re_word_def
  py_upper_char_def py_upper_def py_strip_def asc_def ascii_lower_def re_lower_def
  nfkd_char_def is_mark_def

lemmas regex_eval = chr_match_def cset_match_def step_if_def at_word_boundary_def rep_numeral
  mk_match_def group_def re_match_def re_fullmatch_def re_search_def seqs_def alts_def
  ulit_def lit_def opt_def star_def plus_def digit_def spaces_def euro_def

lemmas pattern_defs = PRICE_CORE_def euro_opt_def PRICE_RE_def PRICE_WITH_VAT_RE_def
  BAD_NAME_KEYWORDS_RE_def stueck_def QTY_ONLY_RE_def UNIT_PRICE_RE_def
  IGNORE_NAME_TOKENS_RE_def THOUSANDS_RE_def NUMBER_RE_def

lemmas price_eval = py_rfind_def py_replace_def py_float_def to_float_def
  float_overflow_def normalize_separators_def
  parse_price_value_def

lemmas vat_eval = VISUAL_MAP_def is_abc_def name_heuristics_def map_char_to_abc_def
  nfkd_strip_marks_def keep_alnum_def first_abc_def normalize_vat_token_def truthy_def
  has_inline_vat_tag_def List.map_filter_def

lemmas nearby_eval = others_def x_center_def same_row_ok_def same_row_vat_tag_def
  price_height_def below_ok_def above_ok_def nearby_vat_tag_for_price_rows_def
  vertical_overlap_ratio_def

lemmas name_eval = price_search_def unit_price_search_def is_unit_price_context_def
  is_bad_name_def build_name_from_left_tokens_def find_name_tokens_for_price_def

lemmas item_eval = resolve_vat_def item_for_price_def price_tokens_def price_loop_step_def
  row_loop_step_def build_items_from_rows_def union_box_def

lemmas rows_eval = group_rows_def group_rows_default_def rows_to_items_def

lemmas text_eval = unicode_eval regex_eval pattern_defs price_eval vat_eval

lemmas all_eval = text_eval nearby_eval name_eval item_eval rows_eval mk_token_def

lemma group_rows_milch_row: "group_rows (45 / 100) milch_row = [milch_row]"
  by (simp add: rows_eval milch_row_def mk_token_def union_box_def vertical_overlap_ratio_def)

section \<open>Properties of the matcher\<close>






























section \<open>Properties of the geometry helpers\<close>

lemma vertical_overlap_ratio_nonneg: "0 \<le> vertical_overlap_ratio a b"
  by (simp add: vertical_overlap_ratio_def Let_def)

lemma vertical_overlap_ratio_le_1:
  assumes "by1 a \<le> by2 a" and "by1 b \<le> by2 b"
  shows "vertical_overlap_ratio a b \<le> 1"
proof -
  define inter where "inter = max 0 (min (by2 a) (by2 b) - max (by1 a) (by1 b))"
  define union where "union = (by2 a - by1 a) + (by2 b - by1 b) - inter"
  have "inter \<le> union"
    using assms unfolding inter_def union_def by (auto simp: max_def min_def)
  then have "union > 0 \<Longrightarrow> inter / union \<le> 1"
    by simp
  then show ?thesis
    unfolding vertical_overlap_ratio_def Let_def inter_def [symmetric] union_def [symmetric]
    by simp
qed

lemma vertical_overlap_ratio_commute:
  "vertical_overlap_ratio a b = vertical_overlap_ratio b a"
  by (simp add: vertical_overlap_ratio_def Let_def min.commute max.commute add.commute)

lemma vertical_overlap_ratio_exc_total:
  "vertical_overlap_ratio_exc a b = Inr (vertical_overlap_ratio a b)"
  by (simp add: vertical_overlap_ratio_exc_def vertical_overlap_ratio_def py_truediv_def Let_def)

text \<open>
  Claim C10.  For boxes whose y-coordinates satisfy \<open>y1 \<le> y2\<close>, the vertical overlap
  ratio never raises (the zero-union case returns 0 instead of dividing by zero), its
  result lies in the interval from 0 to 1, and it is symmetric in its two arguments.
\<close>

theorem vertical_overlap_ratio_total_bounded_symmetric:
  assumes "by1 a \<le> by2 a" and "by1 b \<le> by2 b"
  shows "vertical_overlap_ratio_exc a b = Inr (vertical_overlap_ratio a b)
       \<and> 0 \<le> vertical_overlap_ratio a b
       \<and> vertical_overlap_ratio a b \<le> 1
       \<and> vertical_overlap_ratio a b = vertical_overlap_ratio b a"
  using assms vertical_overlap_ratio_exc_total vertical_overlap_ratio_nonneg
    vertical_overlap_ratio_le_1 vertical_overlap_ratio_commute
  by blast

theorem vertical_overlap_ratio_total_bounded_symmetric_witness:
  "by1 (0, 0, 80, 20) \<le> by2 (0, 0, 80, 20) \<and> by1 (0, 10, 5, 10) \<le> by2 (0, 10, 5, 10)
   \<and> vertical_overlap_ratio_exc (0, 0, 80, 20) (0, 10, 5, 10)
       = Inr (vertical_overlap_ratio (0, 0, 80, 20) (0, 10, 5, 10))
   \<and> 0 \<le> vertical_overlap_ratio (0, 0, 80, 20) (0, 10, 5, 10)
   \<and> vertical_overlap_ratio (0, 0, 80, 20) (0, 10, 5, 10) \<le> 1
   \<and> vertical_overlap_ratio (0, 0, 80, 20) (0, 10, 5, 10)
       = vertical_overlap_ratio (0, 10, 5, 10) (0, 0, 80, 20)"
  using vertical_overlap_ratio_total_bounded_symmetric [of "(0, 0, 80, 20)" "(0, 10, 5, 10)"]
  by simp

section \<open>Properties of the row grouping\<close>

lemma mset_concat_place_token:
  "mset (concat (place_token th tok rows)) = add_mset tok (mset (concat rows))"
  by (induction rows) auto

lemma place_token_nonempty:
  "[] \<notin> set rows \<Longrightarrow> [] \<notin> set (place_token th tok rows)"
  by (induction rows) auto

lemma mset_concat_fold_place:
  "mset (concat (fold (place_token th) ts rows)) = mset ts + mset (concat rows)"
  by (induction ts arbitrary: rows) (auto simp: mset_concat_place_token)

lemma fold_place_nonempty:
  "[] \<notin> set rows \<Longrightarrow> [] \<notin> set (fold (place_token th) ts rows)"
  by (induction ts arbitrary: rows) (auto simp: place_token_nonempty)

lemma mset_concat_map_sort_key:
  "mset (concat (map (sort_key f) rows)) = mset (concat rows)"
  by (induction rows) auto

lemma sort_key_eq_Nil: "sort_key f xs = [] \<longleftrightarrow> xs = []"
proof
  assume "sort_key f xs = []"
  then have "length (sort_key f xs) = 0" by simp
  then show "xs = []" by simp
qed simp

text \<open>
  Claim C9.  The rows returned by the row grouper partition the input tokens: the rows
  together hold exactly the input tokens, each as often as the input has it, no row is
  empty, and inside every row the tokens are in ascending order of their left
  x-coordinate.
\<close>

theorem group_rows_partition_sorted:
  "mset (concat (group_rows th tokens)) = mset tokens
   \<and> (\<forall>row \<in> set (group_rows th tokens).
         row \<noteq> [] \<and> sorted (map (\<lambda>a. bx1 (tok_box a)) row))"
proof
  show "mset (concat (group_rows th tokens)) = mset tokens"
    by (simp add: group_rows_def Let_def mset_concat_map_sort_key mset_concat_fold_place)
next
  let ?rows = "fold (place_token th)
                 (sort_key (\<lambda>a. (by1 (tok_box a), bx1 (tok_box a))) tokens) []"
  have ne: "[] \<notin> set ?rows"
    by (rule fold_place_nonempty) simp
  show "\<forall>row \<in> set (group_rows th tokens).
          row \<noteq> [] \<and> sorted (map (\<lambda>a. bx1 (tok_box a)) row)"
  proof
    fix row assume "row \<in> set (group_rows th tokens)"
    then obtain r where r: "r \<in> set ?rows" and row: "row = sort_key (\<lambda>a. bx1 (tok_box a)) r"
      by (auto simp: group_rows_def Let_def)
    from r ne have "r \<noteq> []" by auto
    with row show "row \<noteq> [] \<and> sorted (map (\<lambda>a. bx1 (tok_box a)) row)"
      by (simp add: sort_key_eq_Nil)
  qed
qed

theorem group_rows_partition_sorted_witness:
  "mset (concat (group_rows (45 / 100) milch_row)) = mset milch_row
   \<and> milch_row \<in> set (group_rows (45 / 100) milch_row)
   \<and> milch_row \<noteq> [] \<and> sorted (map (\<lambda>a. bx1 (tok_box a)) milch_row)"
proof -
  have "milch_row \<in> set (group_rows (45 / 100) milch_row)"
    unfolding group_rows_milch_row by simp
  with group_rows_partition_sorted [of "45 / 100" milch_row] show ?thesis
    by blast
qed

section \<open>The end-to-end example\<close>

text \<open>
  Claim C1.  For the single-row token list of the example, \<^verbatim>\<open>Milch\<close> in the box
  (0, 0, 80, 20) with confidence 0.9, \<^verbatim>\<open>2,49\<close> in (200, 0, 240, 20) with confidence 0.95
  and \<^verbatim>\<open>A\<close> in (245, 0, 255, 20) with confidence 0.9, row grouping followed by item
  assembly yields exactly one item; its name is \<^verbatim>\<open>Milch\<close>, its price value is 2.49 and
  its tax tag is \<^verbatim>\<open>A\<close>.  This holds for every Unicode database, the texts being ASCII.
\<close>

theorem milch_row_one_item:
  "rows_to_items U
     [\<lparr>tok_text = asc ''Milch'', tok_score = Some (9 / 10), tok_box = (0, 0, 80, 20)\<rparr>,
      \<lparr>tok_text = asc ''2,49'', tok_score = Some (95 / 100), tok_box = (200, 0, 240, 20)\<rparr>,
      \<lparr>tok_text = asc ''A'', tok_score = Some (9 / 10), tok_box = (245, 0, 255, 20)\<rparr>]
   = [\<lparr>rowIndex = 0, name = asc ''Milch'', nameBox = (0, 0, 80, 20),
       price = \<lparr>raw = asc ''2,49'', val = Finite (249 / 100), currency = ''EUR'', vatTag = asc ''A''\<rparr>,
       priceBox = (200, 0, 240, 20), confidence = Some (95 / 100)\<rparr>]"
  by (simp add: all_eval Let_def)

section \<open>Properties of the price parser\<close>

lemma rfind_from_snoc:
  "rfind_from c (xs @ [x]) i found =
     (if x = c then i + int (length xs) else rfind_from c xs i found)"
  by (induction xs arbitrary: i found) auto

lemma py_rfind_Nil: "py_rfind c [] = - 1"
  by (simp add: py_rfind_def)

lemma py_rfind_snoc:
  "py_rfind c (xs @ [x]) = (if x = c then int (length xs) else py_rfind c xs)"
  by (simp add: py_rfind_def rfind_from_snoc)

lemma py_rfind_less: "py_rfind c s < int (length s)"
  by (induction s rule: rev_induct) (auto simp: py_rfind_Nil py_rfind_snoc)

lemma rfind_comma_dot: "py_rfind 44 s > py_rfind 46 s \<longleftrightarrow> comma_after_last_dot s"
proof (induction s rule: rev_induct)
  case Nil
  show ?case by (simp add: py_rfind_Nil comma_after_last_dot_def)
next
  case (snoc x xs)
  consider "x = 46" | "x = 44" | "x \<noteq> 46" "x \<noteq> 44" by blast
  then show ?case
  proof cases
    case 1
    with py_rfind_less [of 44 xs] show ?thesis
      by (simp add: py_rfind_snoc comma_after_last_dot_def)
  next
    case 2
    with py_rfind_less [of 46 xs] show ?thesis
      by (simp add: py_rfind_snoc comma_after_last_dot_def)
  next
    case 3
    with snoc show ?thesis
      by (simp add: py_rfind_snoc comma_after_last_dot_def)
  qed
qed

lemma py_replace_delete: "py_replace c [] s = filter (\<lambda>x. x \<noteq> c) s"
  by (induction s) (auto simp: py_replace_def)

lemma py_replace_char: "py_replace c [d] s = map (\<lambda>x. if x = c then d else x) s"
  by (induction s) (auto simp: py_replace_def)

lemma list_shape7:
  obtains "a = []" | x1 where "a = [x1]" | x1 x2 where "a = [x1, x2]"
  | x1 x2 x3 where "a = [x1, x2, x3]"
  | x1 x2 x3 x4 where "a = [x1, x2, x3, x4]"
  | x1 x2 x3 x4 x5 where "a = [x1, x2, x3, x4, x5]"
  | x1 x2 x3 x4 x5 x6 where "a = [x1, x2, x3, x4, x5, x6]"
  | x1 x2 x3 x4 x5 x6 x7 rest where "a = x1 # x2 # x3 # x4 # x5 # x6 # x7 # rest"
  by (metis list.exhaust)

lemma run_thousands:
  "run U False THOUSANDS_RE \<lparr>m_before = b, m_after = a, m_groups = g\<rparr> \<noteq> []
   \<longleftrightarrow> thousands_here U a"
  by (cases a rule: list_shape7)
     (auto simp add: THOUSANDS_RE_def thousands_here_def seqs_def digit_def step_if_def
        cset_match_def rep_numeral chr_match_def)

lemma search_from_thousands:
  "search_from U False THOUSANDS_RE b a \<noteq> None \<longleftrightarrow> thousands_here_any U a"
proof (induction a arbitrary: b)
  case Nil
  have "run U False THOUSANDS_RE \<lparr>m_before = b, m_after = [], m_groups = []\<rparr> = []"
    using run_thousands [of U b "[]" "[]"] by (simp add: thousands_here_def)
  then show ?case by simp
next
  case (Cons c cs)
  show ?case
  proof (cases "run U False THOUSANDS_RE \<lparr>m_before = b, m_after = c # cs, m_groups = []\<rparr>")
    case Nil
    with run_thousands [of U b "c # cs" "[]"] have "\<not> thousands_here U (c # cs)" by simp
    with Nil Cons.IH [of "c # b"] show ?thesis by simp
  next
    case (Cons st sts)
    with run_thousands [of U b "c # cs" "[]"] have "thousands_here U (c # cs)" by simp
    with Cons show ?thesis by simp
  qed
qed

lemma thousands_here_imp: "thousands_here U a \<Longrightarrow> thousands_comma U a"
  by (cases a rule: list_shape7) (auto simp: thousands_here_def)

lemma thousands_here_any_iff: "thousands_here_any U a \<longleftrightarrow> thousands_comma U a"
proof (induction a)
  case Nil
  show ?case by simp
next
  case (Cons c cs)
  have "thousands_here U (c # cs) \<Longrightarrow> thousands_comma U (c # cs)"
    by (rule thousands_here_imp)
  moreover have "digit_comma_3digits U (c # cs) \<Longrightarrow> thousands_here U (c # cs)"
    by (simp add: thousands_here_def)
  ultimately show ?case using Cons by auto
qed

lemma thousands_search_iff:
  "re_search U False THOUSANDS_RE s \<noteq> None \<longleftrightarrow> thousands_comma U s"
  unfolding re_search_def
  using search_from_thousands [of U "[]" s] thousands_here_any_iff [of U s]
  by blast

lemma thousands_comma_has_comma: "thousands_comma U s \<Longrightarrow> 44 \<in> set s"
proof (induction s)
  case Nil
  then show ?case by simp
next
  case (Cons c cs)
  show ?case
  proof (cases "digit_comma_3digits U (c # cs)")
    case True
    then show ?thesis by (cases cs rule: list_shape7) auto
  next
    case False
    with Cons show ?thesis by simp
  qed
qed

lemma normalize_separators_spec: "normalize_separators U s = locale_rule_spec U s"
proof -
  have "44 \<in> set s \<and> re_search U False THOUSANDS_RE s \<noteq> None \<longleftrightarrow> thousands_comma U s"
    using thousands_search_iff [of U s] thousands_comma_has_comma [of U s] by blast
  then show ?thesis
    unfolding normalize_separators_def locale_rule_spec_def Let_def
    by (simp only: rfind_comma_dot py_replace_delete py_replace_char)
qed

lemma parse_price_value_currency: "snd (parse_price_value U rtxt) = ''EUR''"
  by (simp add: parse_price_value_def Let_def split: option.splits)

text \<open>
  Claim C3.  Price parsing follows the locale rule of the specification (a comma after the
  last dot is the decimal separator and the dots are removed; else, where a comma stands
  before a 3-digit group, the commas are thousands separators and are stripped; otherwise
  the comma is the decimal separator); it maps \<^verbatim>\<open>12,99\<close> to 12.99, \<^verbatim>\<open>1.234,56\<close> to
  1234.56, \<^verbatim>\<open>12.99\<close> to 12.99 and \<^verbatim>\<open>abc\<close> to no value; and the currency it returns is
  \<^verbatim>\<open>EUR\<close> for every input, also when there is no value.
\<close>

theorem parse_price_value_locale_rule:
  "normalize_separators U s = locale_rule_spec U s
   \<and> parse_price_value U (asc ''12,99'') = (Some (Finite (1299 / 100)), ''EUR'')
   \<and> parse_price_value U (asc ''1.234,56'') = (Some (Finite (123456 / 100)), ''EUR'')
   \<and> parse_price_value U (asc ''12.99'') = (Some (Finite (1299 / 100)), ''EUR'')
   \<and> parse_price_value U (asc ''abc'') = (None, ''EUR'')
   \<and> snd (parse_price_value U rtxt) = ''EUR''"
proof -
  have "parse_price_value U (asc ''12,99'') = (Some (Finite (1299 / 100)), ''EUR'')"
    by (simp add: text_eval)
  moreover have "parse_price_value U (asc ''1.234,56'') = (Some (Finite (123456 / 100)), ''EUR'')"
    by (simp add: text_eval)
  moreover have "parse_price_value U (asc ''12.99'') = (Some (Finite (1299 / 100)), ''EUR'')"
    by (simp add: text_eval)
  moreover have "parse_price_value U (asc ''abc'') = (None, ''EUR'')"
    by (simp add: text_eval)
  ultimately show ?thesis
    using normalize_separators_spec [of U s] parse_price_value_currency [of U rtxt]
    by blast
qed

section \<open>Properties of the tax tag normalization\<close>

lemma py_strip_all_space: "(\<forall>c \<in> set tx. py_isspace c) \<Longrightarrow> py_strip tx = []"
  by (simp add: py_strip_def dropWhile_eq_Nil_conv) (meson set_dropWhileD)

lemma normalize_vat_token_fallback_B:
  assumes "keep_alnum (nfkd_strip_marks U (py_strip tx)) = []"
    and "\<exists>ch \<in> set (nfkd_strip_marks U (py_strip tx)). \<not> py_isdigit U ch"
  shows "normalize_vat_token U tx = Some (asc ''B'')"
proof -
  from assms(2) have "nfkd_strip_marks U (py_strip tx) \<noteq> []" by auto
  then have "py_strip tx \<noteq> []" by (auto simp: nfkd_strip_marks_def)
  moreover from this have "tx \<noteq> []" by (auto simp: py_strip_def)
  ultimately show ?thesis
    using assms by (simp add: normalize_vat_token_def Let_def list_ex_iff)
qed

lemma normalize_vat_token_space:
  "(\<forall>c \<in> set tx. py_isspace c) \<Longrightarrow> normalize_vat_token U tx = None"
  by (simp add: normalize_vat_token_def py_strip_all_space)

text \<open>
  Claim C4, as stated, fails: a text of one space has an empty cleaned string and a
  character that is no digit, and its normalization is no tag, not \<^verbatim>\<open>B\<close>.
\<close>

theorem blank_token_no_tag_counterexample:
  "keep_alnum (nfkd_strip_marks plain_db (asc '' '')) = []
   \<and> 32 \<in> set (asc '' '') \<and> \<not> py_isdigit plain_db 32
   \<and> normalize_vat_token plain_db (asc '' '') = None"
  by (simp add: text_eval)

text \<open>
  Claim C4, amended.  Tax-tag token normalization maps \<^verbatim>\<open>A\<close> to \<^verbatim>\<open>A\<close>, \<^verbatim>\<open>8\<close> to
  \<^verbatim>\<open>B\<close>, the Greek capital beta U+0392 to \<^verbatim>\<open>B\<close> and the empty string to no tag; for
  every input whose cleaned string is empty while its text after trimming, decomposition
  and removal of marks contains a character that is no digit, it returns \<^verbatim>\<open>B\<close>; and an
  input of white space only yields no tag.  The vector of the beta needs what the Unicode
  database says about it: it is its own decomposition and upper case, and no mark.
\<close>

theorem normalize_vat_token_vectors_and_fallback:
  assumes "u_nfkd U 914 = [914]" and "\<not> u_mark U 914" and "u_upper U 914 = [914]"
  shows "normalize_vat_token U (asc ''A'') = Some (asc ''A'')
       \<and> normalize_vat_token U (asc ''8'') = Some (asc ''B'')
       \<and> normalize_vat_token U [914] = Some (asc ''B'')
       \<and> normalize_vat_token U [] = None
       \<and> (keep_alnum (nfkd_strip_marks U (py_strip tx)) = []
            \<and> (\<exists>ch \<in> set (nfkd_strip_marks U (py_strip tx)). \<not> py_isdigit U ch)
          \<longrightarrow> normalize_vat_token U tx = Some (asc ''B''))
       \<and> ((\<forall>c \<in> set tx. py_isspace c) \<longrightarrow> normalize_vat_token U tx = None)"
proof -
  have "normalize_vat_token U (asc ''A'') = Some (asc ''A'')"
    by (simp add: text_eval)
  moreover have "normalize_vat_token U (asc ''8'') = Some (asc ''B'')"
    by (simp add: text_eval)
  moreover have "normalize_vat_token U [914] = Some (asc ''B'')"
    using assms by (simp add: text_eval)
  moreover have "normalize_vat_token U [] = None"
    by (simp add: normalize_vat_token_def)
  ultimately show ?thesis
    using normalize_vat_token_fallback_B [of U tx] normalize_vat_token_space [of tx U]
    by blast
qed

theorem normalize_vat_token_vectors_and_fallback_witness:
  "u_nfkd plain_db 914 = [914] \<and> \<not> u_mark plain_db 914 \<and> u_upper plain_db 914 = [914]
   \<and> normalize_vat_token plain_db [914] = Some (asc ''B'')
   \<and> keep_alnum (nfkd_strip_marks plain_db (py_strip (asc ''-''))) = []
   \<and> 45 \<in> set (nfkd_strip_marks plain_db (py_strip (asc ''-''))) \<and> \<not> py_isdigit plain_db 45
   \<and> normalize_vat_token plain_db (asc ''-'') = Some (asc ''B'')
   \<and> py_isspace 32 \<and> normalize_vat_token plain_db (asc '' '') = None"
proof -
  have h: "u_nfkd plain_db 914 = [914]" "\<not> u_mark plain_db 914" "u_upper plain_db 914 = [914]"
    by (simp_all add: plain_db_def)
  have e: "keep_alnum (nfkd_strip_marks plain_db (py_strip (asc ''-''))) = []"
    "45 \<in> set (nfkd_strip_marks plain_db (py_strip (asc ''-'')))" "\<not> py_isdigit plain_db 45"
    "py_isspace 32" "set (asc '' '') = {32}"
    by (simp_all add: text_eval)
  from e have sp: "\<forall>c \<in> set (asc '' ''). py_isspace c" by simp
  from normalize_vat_token_vectors_and_fallback [OF h, of "asc ''-''"]
    normalize_vat_token_vectors_and_fallback [OF h, of "asc '' ''"] h e sp
  show ?thesis by blast
qed

section \<open>Properties of the deduplication\<close>

lemma py_prefix_iff: "py_prefix a s \<longleftrightarrow> (\<exists>q. s = a @ q)"
  by (induction a s rule: py_prefix.induct) auto

lemma py_in_iff: "py_in sub s \<longleftrightarrow> (\<exists>p q. s = p @ sub @ q)"
proof (induction s)
  case Nil
  show ?case by auto
next
  case (Cons c cs)
  show ?case
  proof
    assume "py_in sub (c # cs)"
    then consider "py_prefix sub (c # cs)" | "py_in sub cs" by auto
    then show "\<exists>p q. c # cs = p @ sub @ q"
    proof cases
      case 1
      then obtain q where "c # cs = sub @ q" by (auto simp: py_prefix_iff)
      then have "c # cs = [] @ sub @ q" by simp
      then show ?thesis by blast
    next
      case 2
      with Cons obtain p q where "cs = p @ sub @ q" by auto
      then have "c # cs = (c # p) @ sub @ q" by simp
      then show ?thesis by blast
    qed
  next
    assume "\<exists>p q. c # cs = p @ sub @ q"
    then obtain p q where pq: "c # cs = p @ sub @ q" by auto
    show "py_in sub (c # cs)"
    proof (cases p)
      case Nil
      with pq have "py_prefix sub (c # cs)" by (auto simp: py_prefix_iff)
      then show ?thesis by simp
    next
      case (Cons x p')
      with pq have "cs = p' @ sub @ q" by simp
      with Cons.IH have "py_in sub cs" by blast
      then show ?thesis by simp
    qed
  qed
qed

lemma rev_dropWhile_split:
  "xs = rev (dropWhile P (rev xs)) @ rev (takeWhile P (rev xs))"
  by (metis rev_append rev_rev_ident takeWhile_dropWhile_id)

lemma py_strip_inner:
  "dropWhile py_isspace s = py_strip s @ rev (takeWhile py_isspace (rev (dropWhile py_isspace s)))"
  unfolding py_strip_def by (rule rev_dropWhile_split)

lemma py_strip_decomp:
  "\<exists>l r. s = l @ py_strip s @ r \<and> (\<forall>c \<in> set l. py_isspace c) \<and> (\<forall>c \<in> set r. py_isspace c)"
proof -
  let ?l = "takeWhile py_isspace s"
  let ?r = "rev (takeWhile py_isspace (rev (dropWhile py_isspace s)))"
  have "s = ?l @ dropWhile py_isspace s" by simp
  with py_strip_inner [of s] have "s = ?l @ py_strip s @ ?r" by metis
  moreover have "\<forall>c \<in> set ?l. py_isspace c"
    by (meson set_takeWhileD)
  moreover have "\<forall>c \<in> set ?r. py_isspace c"
    using set_takeWhileD by fastforce
  ultimately show ?thesis by blast
qed

lemma py_strip_hd:
  assumes "py_strip s \<noteq> []"
  shows "\<not> py_isspace (hd (py_strip s))"
proof -
  let ?m = "dropWhile py_isspace s"
  from assms py_strip_inner [of s] have m: "?m \<noteq> []" by (metis append_is_Nil_conv)
  then have "\<not> py_isspace (hd ?m)" by (rule hd_dropWhile)
  moreover from assms py_strip_inner [of s] have "hd ?m = hd (py_strip s)"
    by (metis hd_append2)
  ultimately show ?thesis by simp
qed

lemma py_strip_last:
  assumes "py_strip s \<noteq> []"
  shows "\<not> py_isspace (last (py_strip s))"
proof -
  let ?d = "dropWhile py_isspace (rev (dropWhile py_isspace s))"
  from assms have d: "?d \<noteq> []" by (simp add: py_strip_def)
  then have "\<not> py_isspace (hd ?d)" by (rule hd_dropWhile)
  with d show ?thesis by (simp add: py_strip_def last_rev)
qed

lemma space_prefix_inside:
  assumes "l @ m = p @ sub" and "\<forall>c \<in> set l. py_isspace c" and "sub \<noteq> []" and "\<not> py_isspace (hd sub)"
  shows "\<exists>p'. m = p' @ sub"
  using assms
proof (induction l arbitrary: p)
  case Nil
  then show ?case by auto
next
  case (Cons x l)
  show ?case
  proof (cases p)
    case Nil
    with Cons.prems have "x = hd sub" by (cases sub) auto
    with Cons.prems show ?thesis by auto
  next
    case (Cons y p'')
    with Cons.prems have "l @ m = p'' @ sub" by simp
    with Cons.IH Cons.prems show ?thesis by auto
  qed
qed

lemma space_suffix_inside:
  assumes "m @ r = sub @ q" and "\<forall>c \<in> set r. py_isspace c" and "sub \<noteq> []"
    and "\<not> py_isspace (last sub)"
  shows "\<exists>q'. m = sub @ q'"
proof -
  from assms(1) have "rev r @ rev m = rev q @ rev sub" by (metis rev_append)
  moreover from assms(2) have "\<forall>c \<in> set (rev r). py_isspace c" by simp
  moreover from assms(3,4) have "rev sub \<noteq> []" "\<not> py_isspace (hd (rev sub))"
    by (simp_all add: hd_rev)
  ultimately obtain p' where "rev m = p' @ rev sub"
    using space_prefix_inside by blast
  then have "m = sub @ rev p'" by (metis rev_append rev_rev_ident)
  then show ?thesis by blast
qed

lemma py_in_strip_right:
  "py_in (py_strip a) b \<longleftrightarrow> py_in (py_strip a) (py_strip b)"
proof (cases "py_strip a = []")
  case True
  have "b = [] @ [] @ b" "py_strip b = [] @ [] @ py_strip b" by simp_all
  with True show ?thesis unfolding py_in_iff by metis
next
  case False
  obtain l r where b: "b = l @ py_strip b @ r" and l: "\<forall>c \<in> set l. py_isspace c"
    and r: "\<forall>c \<in> set r. py_isspace c"
    using py_strip_decomp [of b] by blast
  show ?thesis
  proof
    assume "py_in (py_strip a) (py_strip b)"
    then obtain p q where "py_strip b = p @ py_strip a @ q" by (auto simp: py_in_iff)
    with b have "b = (l @ p) @ py_strip a @ (q @ r)" by simp
    then show "py_in (py_strip a) b" unfolding py_in_iff by blast
  next
    assume "py_in (py_strip a) b"
    then obtain p q where pq: "b = p @ py_strip a @ q" by (auto simp: py_in_iff)
    with b have "l @ (py_strip b @ r) = p @ (py_strip a @ q)" by simp
    with l False py_strip_hd [OF False] obtain p' where p': "py_strip b @ r = p' @ py_strip a @ q"
      using space_prefix_inside [of l "py_strip b @ r" p "py_strip a @ q"] by (auto simp: hd_append)
    then have "py_strip b @ r = (p' @ py_strip a) @ q" by simp
    with r False py_strip_last [OF False] obtain q' where "py_strip b = (p' @ py_strip a) @ q'"
      using space_suffix_inside [of "py_strip b" r "p' @ py_strip a" q] by auto
    then show "py_in (py_strip a) (py_strip b)" unfolding py_in_iff by auto
  qed
qed


lemma dedupe_skip_iff:
  "dedupe_skip t acc \<longleftrightarrow>
     (\<exists>u \<in> set acc. vertical_overlap_ratio (tok_box t) (tok_box u) > 6 / 10
        \<and> (py_strip (tok_text t) = py_strip (tok_text u)
            \<or> (py_in (py_strip (tok_text t)) (tok_text u)
                \<and> length (tok_text u) > length (tok_text t))))"
  by (induction acc) auto

lemma dedupe_snoc: "dedupe (ts @ [t]) = dedupe_step t (dedupe ts)"
  by (simp add: dedupe_def)

text \<open>
  Claim C8, as stated, fails.  The claim compares the trimmed texts throughout; the
  program takes the lengths of the texts as they are.  After the token \<^verbatim>\<open>Milch\<close> the
  token \<^verbatim>\<open>Milc \<close> (with a space at its end) in the same box has overlap ratio 1, its
  trimmed text \<^verbatim>\<open>Milc\<close> is a substring of the trimmed text \<^verbatim>\<open>Milch\<close>, which is
  strictly longer, and the trimmed texts differ: the claim has the new token dropped,
  the program keeps it, since the two untrimmed texts have the same length 5.
\<close>

theorem dedupe_keeps_trimmed_substring_counterexample:
  "vertical_overlap_ratio (tok_box (mk_token ''Milc '' (0, 0, 80, 20) (8 / 10)))
       (tok_box (mk_token ''Milch'' (0, 0, 80, 20) (9 / 10))) > 6 / 10
   \<and> py_in (py_strip (tok_text (mk_token ''Milc '' (0, 0, 80, 20) (8 / 10))))
         (py_strip (tok_text (mk_token ''Milch'' (0, 0, 80, 20) (9 / 10))))
   \<and> length (py_strip (tok_text (mk_token ''Milch'' (0, 0, 80, 20) (9 / 10))))
       > length (py_strip (tok_text (mk_token ''Milc '' (0, 0, 80, 20) (8 / 10))))
   \<and> dedupe [mk_token ''Milch'' (0, 0, 80, 20) (9 / 10),
              mk_token ''Milc '' (0, 0, 80, 20) (8 / 10)]
       = [mk_token ''Milch'' (0, 0, 80, 20) (9 / 10),
          mk_token ''Milc '' (0, 0, 80, 20) (8 / 10)]"
  by (simp add: mk_token_def vertical_overlap_ratio_def vertical_overlap_ratio_exc_def py_truediv_def
        unicode_eval dedupe_def dedupe_step_def py_strip_def asc_def)

text \<open>
  Claim C8, amended.  In the deduplication, a new token \<open>t\<close>, coming after the tokens
  \<open>ts\<close>, is dropped if and only if some already accepted token \<open>u\<close> has a vertical
  overlap ratio with it above 0.6 and either the two trimmed texts are equal, or the
  trimmed text of \<open>t\<close> is a substring of the trimmed text of \<open>u\<close> and the untrimmed text
  of \<open>u\<close> is strictly longer than the untrimmed text of \<open>t\<close>; otherwise it is accepted
  at the end.  In particular two tokens with an overlap above 0.6 and equal trimmed texts
  collapse to the first of them.
\<close>

theorem dedupe_drops_iff_duplicate:
  "dedupe (ts @ [t]) =
     (if \<exists>u \<in> set (dedupe ts).
            vertical_overlap_ratio (tok_box t) (tok_box u) > 6 / 10
            \<and> (py_strip (tok_text t) = py_strip (tok_text u)
                \<or> (py_in (py_strip (tok_text t)) (py_strip (tok_text u))
                    \<and> length (tok_text u) > length (tok_text t)))
      then dedupe ts else dedupe ts @ [t])
   \<and> (vertical_overlap_ratio (tok_box t) (tok_box v) > 6 / 10
        \<and> py_strip (tok_text t) = py_strip (tok_text v)
      \<longrightarrow> dedupe [v, t] = [v])"
proof
  show "dedupe (ts @ [t]) =
     (if \<exists>u \<in> set (dedupe ts).
            vertical_overlap_ratio (tok_box t) (tok_box u) > 6 / 10
            \<and> (py_strip (tok_text t) = py_strip (tok_text u)
                \<or> (py_in (py_strip (tok_text t)) (py_strip (tok_text u))
                    \<and> length (tok_text u) > length (tok_text t)))
      then dedupe ts else dedupe ts @ [t])"
    unfolding dedupe_snoc dedupe_step_def dedupe_skip_iff
    by (simp only: py_in_strip_right [symmetric])
next
  show "vertical_overlap_ratio (tok_box t) (tok_box v) > 6 / 10
        \<and> py_strip (tok_text t) = py_strip (tok_text v)
      \<longrightarrow> dedupe [v, t] = [v]"
    by (simp add: dedupe_def dedupe_step_def)
qed

theorem dedupe_drops_iff_duplicate_witness:
  "vertical_overlap_ratio (tok_box (mk_token ''Milch '' (0, 1, 80, 20) (8 / 10)))
       (tok_box (mk_token ''Milch'' (0, 0, 80, 20) (9 / 10))) > 6 / 10
   \<and> py_strip (tok_text (mk_token ''Milch '' (0, 1, 80, 20) (8 / 10)))
       = py_strip (tok_text (mk_token ''Milch'' (0, 0, 80, 20) (9 / 10)))
   \<and> dedupe [mk_token ''Milch'' (0, 0, 80, 20) (9 / 10),
              mk_token ''Milch '' (0, 1, 80, 20) (8 / 10)]
       = [mk_token ''Milch'' (0, 0, 80, 20) (9 / 10)]"
proof -
  have h: "vertical_overlap_ratio (tok_box (mk_token ''Milch '' (0, 1, 80, 20) (8 / 10)))
       (tok_box (mk_token ''Milch'' (0, 0, 80, 20) (9 / 10))) > 6 / 10
   \<and> py_strip (tok_text (mk_token ''Milch '' (0, 1, 80, 20) (8 / 10)))
       = py_strip (tok_text (mk_token ''Milch'' (0, 0, 80, 20) (9 / 10)))"
    by (simp add: mk_token_def vertical_overlap_ratio_def unicode_eval)
  with dedupe_drops_iff_duplicate [of "[]" "mk_token ''Milch '' (0, 1, 80, 20) (8 / 10)"
      "mk_token ''Milch'' (0, 0, 80, 20) (9 / 10)"]
  show ?thesis by blast
qed

section \<open>Properties of the search for a tag nearby\<close>

lemma scan_tags_Some:
  "scan_tags U ok ts = Some vat \<Longrightarrow>
     \<exists>t \<in> set ts. normalize_vat_token U (tok_text t) = Some vat \<and> ok t"
  by (induction ts) (auto simp: Let_def split: if_splits)

lemma scan_tags_None: "(\<forall>t \<in> set ts. \<not> ok t) \<Longrightarrow> scan_tags U ok ts = None"
  by (induction ts) (auto simp: Let_def)

text \<open>
  Claim C5, as stated, fails: in the row of \<^verbatim>\<open>Cola\<close> at (0, 0, 80, 20) and the price
  \<^verbatim>\<open>2,49\<close> at (200, 0, 240, 20), the only other token has its left edge 240 px away from
  the right edge of the price, and the same-row step yields the tag \<^verbatim>\<open>C\<close> from it.
\<close>

theorem same_row_tag_far_left_counterexample:
  "same_row_vat_tag plain_db (cola_row ! 1) 1 cola_row = Some (asc ''C'')
   \<and> others 1 cola_row = [cola_row ! 0]
   \<and> \<bar>bx1 (tok_box (cola_row ! 0)) - bx2 (tok_box (cola_row ! 1))\<bar> = 240"
  by (simp add: cola_row_def all_eval)

text \<open>
  Claim C5, amended.  In the same-row step a token is accepted only if its text
  normalizes to the tag, its vertical overlap ratio with the price box is at least 0.15
  and its left edge is at most 40 px to the right of the right edge of the price token
  (a token further left passes at any distance); in particular, when every other token of
  the row has its left edge more than 40 px to the right of that edge, the step yields no
  tag.
\<close>

theorem same_row_tag_accepted_only_if:
  "(same_row_vat_tag U price_tok pidx row = Some vat \<longrightarrow>
      (\<exists>t \<in> set (others pidx row).
          normalize_vat_token U (tok_text t) = Some vat
          \<and> vertical_overlap_ratio (tok_box price_tok) (tok_box t) \<ge> 15 / 100
          \<and> bx1 (tok_box t) \<le> bx2 (tok_box price_tok) + 40))
   \<and> ((\<forall>t \<in> set (others pidx row). bx1 (tok_box t) > bx2 (tok_box price_tok) + 40)
        \<longrightarrow> same_row_vat_tag U price_tok pidx row = None)"
proof (intro conjI impI)
  assume "same_row_vat_tag U price_tok pidx row = Some vat"
  then obtain t where "t \<in> set (others pidx row)"
    "normalize_vat_token U (tok_text t) = Some vat" "same_row_ok price_tok t"
    unfolding same_row_vat_tag_def Let_def using scan_tags_Some by fastforce
  then show "\<exists>t \<in> set (others pidx row).
          normalize_vat_token U (tok_text t) = Some vat
          \<and> vertical_overlap_ratio (tok_box price_tok) (tok_box t) \<ge> 15 / 100
          \<and> bx1 (tok_box t) \<le> bx2 (tok_box price_tok) + 40"
    unfolding same_row_ok_def by blast
next
  assume "\<forall>t \<in> set (others pidx row). bx1 (tok_box t) > bx2 (tok_box price_tok) + 40"
  then have "\<forall>t \<in> set (sort_key (\<lambda>t. \<bar>x_center t - x_center price_tok\<bar>) (others pidx row)).
               \<not> same_row_ok price_tok t"
    by (auto simp: same_row_ok_def)
  then show "same_row_vat_tag U price_tok pidx row = None"
    unfolding same_row_vat_tag_def Let_def by (rule scan_tags_None)
qed

theorem same_row_tag_accepted_only_if_witness:
  "same_row_vat_tag plain_db (milch_row ! 1) 1 milch_row = Some (asc ''A'')
   \<and> list_ex (\<lambda>t. normalize_vat_token plain_db (tok_text t) = Some (asc ''A'')
          \<and> vertical_overlap_ratio (tok_box (milch_row ! 1)) (tok_box t) \<ge> 15 / 100
          \<and> bx1 (tok_box t) \<le> bx2 (tok_box (milch_row ! 1)) + 40) (others 1 milch_row)
   \<and> list_all (\<lambda>t. bx1 (tok_box t) > bx2 (tok_box (far_tag_row ! 0)) + 40)
        (others 0 far_tag_row)
   \<and> same_row_vat_tag plain_db (far_tag_row ! 0) 0 far_tag_row = None"
proof -
  have a: "same_row_vat_tag plain_db (milch_row ! 1) 1 milch_row = Some (asc ''A'')"
    by (simp add: milch_row_def all_eval)
  have b: "\<forall>t \<in> set (others 0 far_tag_row). bx1 (tok_box t) > bx2 (tok_box (far_tag_row ! 0)) + 40"
    by (simp add: far_tag_row_def others_def mk_token_def)
  from a b same_row_tag_accepted_only_if [of plain_db "milch_row ! 1" 1 milch_row "asc ''A''"]
    same_row_tag_accepted_only_if [of plain_db "far_tag_row ! 0" 0 far_tag_row]
  show ?thesis unfolding list_all_iff list_ex_iff by blast
qed


section \<open>Properties of the inline tag\<close>






















section \<open>Properties of the item assembly\<close>

lemma py_min_Min: "xs \<noteq> [] \<Longrightarrow> py_min xs = Min (set xs)"
proof (cases xs)
  case (Cons a l)
  with Min.set_eq_fold [of a l] show ?thesis by simp
qed simp

lemma py_max_Max: "xs \<noteq> [] \<Longrightarrow> py_max xs = Max (set xs)"
proof (cases xs)
  case (Cons a l)
  with Max.set_eq_fold [of a l] show ?thesis by simp
qed simp

lemma union_box_spec: "ts \<noteq> [] \<Longrightarrow> union_box ts = bounding_box_spec ts"
  by (simp add: union_box_def bounding_box_spec_def Let_def py_min_Min py_max_Max o_def)

lemma bounding_box_single: "bounding_box_spec [t] = tok_box t"
  by (cases "tok_box t") (simp add: bounding_box_spec_def)







lemma py_replace_set: "set (py_replace c new s) \<subseteq> set s \<union> set new"
  by (induction s) (auto simp: py_replace_def)










lemma price_tokens_match:
  "p \<in> set (price_tokens U row) \<Longrightarrow> fst p < length row \<and> snd p = row ! fst p \<and> price_search U (snd p)"
  by (auto simp: price_tokens_def in_set_enumerate_eq)






lemma e5: "build_items_from_rows plain_db [milch_row] = [milch_item 0 0]"
  by (simp add: milch_row_def milch_item_def all_eval Let_def)

lemma e6: "find_name_tokens_for_price plain_db (milch_row ! 1) 1 [milch_row] 0 = [milch_row ! 0]"
  by (simp add: milch_row_def all_eval Let_def)

lemma e7: "build_items_from_rows plain_db [tee_row] = []" "build_items_from_rows plain_db [qty_row] = []"
  by (simp_all add: tee_row_def qty_row_def all_eval Let_def)






end
